theory Spec2Isabelle
  imports Complex_Main
begin

section \<open>UTXO selection and fee handling (services/Bitcore.ts)\<close>

















section \<open>Swaps, orders and transactions\<close>

text \<open>
  A value held in an error field (\<open>swap.error\<close>, \<open>order.error\<close>, \<open>tx.sendingError\<close>, ...)
  or thrown: a string, or an Error object with its message. \<open>None\<close> is \<open>undefined\<close>.
  \<open>truthy\<close> is JavaScript's test: the empty string is falsy, an object is truthy.
\<close>

datatype errorValue = StringValue string | ErrorObject string

fun truthy :: "errorValue option \<Rightarrow> bool" where
  "truthy None = False"
| "truthy (Some (StringValue s)) = (s \<noteq> [])"
| "truthy (Some (ErrorObject m)) = True"

text \<open>
  The unsigned account-model payload (\<open>txData\<close>): the skeleton handed to the gas
  estimate, then the full record. The fields \<open>from\<close>, \<open>to\<close>, \<open>value\<close> and \<open>data\<close> of the
  source are \<open>txFrom\<close>, \<open>txTo\<close>, \<open>txValue\<close> and \<open>txCallData\<close>; hexadecimal encodings of
  numbers are the numbers themselves.
\<close>

datatype callData = NoData | TokenSendData string rat nat

record txSkeleton =
  chainId :: nat
  txFrom :: string
  txValue :: rat
  txCallData :: callData
  txTo :: string

record txData = txSkeleton +
  gasPrice :: nat
  gas :: nat
  nonce :: nat

text \<open>
  Amounts in an asset's main denomination are BigNumber values (bignumber.js): a finite
  decimal, one of the two infinities, or NaN. Sums and differences of finite values are
  exact, NaN absorbs, and opposite infinities cancel to NaN. Zero carries no sign here;
  with the library's default rounding mode a difference of equal values is not negative.
\<close>

datatype bigNumber = Num rat | PosInfinity | NegInfinity | NaN

instantiation bigNumber :: comm_monoid_add
begin

definition zero_bigNumber :: bigNumber where
  "zero_bigNumber = Num 0"

fun plus_bigNumber :: "bigNumber \<Rightarrow> bigNumber \<Rightarrow> bigNumber" where
  "plus_bigNumber (Num x) (Num y) = Num (x + y)"
| "plus_bigNumber NaN b = NaN"
| "plus_bigNumber a NaN = NaN"
| "plus_bigNumber PosInfinity NegInfinity = NaN"
| "plus_bigNumber NegInfinity PosInfinity = NaN"
| "plus_bigNumber PosInfinity b = PosInfinity"
| "plus_bigNumber a PosInfinity = PosInfinity"
| "plus_bigNumber NegInfinity b = NegInfinity"
| "plus_bigNumber a NegInfinity = NegInfinity"

instance
proof
  fix x y z :: bigNumber
  have neutral: "Num 0 + x = x" by (cases x) simp_all
  then show "0 + x = x" by (simp only: zero_bigNumber_def)
  show "x + y = y + x" by (cases x; cases y) simp_all
  show "x + y + z = x + (y + z)" by (cases x; cases y; cases z) simp_all
qed

end

fun bnMinus :: "bigNumber \<Rightarrow> bigNumber \<Rightarrow> bigNumber" where
  "bnMinus (Num x) (Num y) = Num (x - y)"
| "bnMinus NaN b = NaN"
| "bnMinus a NaN = NaN"
| "bnMinus PosInfinity PosInfinity = NaN"
| "bnMinus NegInfinity NegInfinity = NaN"
| "bnMinus PosInfinity b = PosInfinity"
| "bnMinus a PosInfinity = NegInfinity"
| "bnMinus NegInfinity b = NegInfinity"
| "bnMinus a NegInfinity = PosInfinity"

fun isNegative :: "bigNumber \<Rightarrow> bool" where
  "isNegative (Num x) = (x < 0)"
| "isNegative NegInfinity = True"
| "isNegative b = False"

text \<open>
  A transaction record. The fields \<open>id\<close>, \<open>amount\<close>, \<open>error\<close> and \<open>txData\<close> of the source are
  \<open>transactionId\<close>, \<open>txAmount\<close>, \<open>txError\<close> and \<open>ethTxData\<close>. The amount, the fee amount and
  the fee symbol may each be missing (\<open>undefined\<close>, here \<open>None\<close>): the swap selector hands out
  the empty object \<open>{}\<close> for a swap whose transaction is not yet in the store. \<open>receipt\<close>
  says whether a receipt is present.

  Of an order the model keeps the deposit address, the status and the error
  (\<open>orderError\<close>); of a swap the fields the modelled functions read (\<open>swapId\<close> is \<open>id\<close>).
\<close>

record transaction =
  transactionId :: string
  txAmount :: "bigNumber option"
  feeAmount :: "bigNumber option"
  feeSymbol :: "string option"
  receipt :: bool
  sendingError :: "errorValue option"
  sending :: bool
  sent :: bool
  signingError :: "errorValue option"
  signing :: bool
  signed :: bool
  signingSupported :: bool
  txError :: "errorValue option"
  ethTxData :: "txData option"

record order =
  deposit :: string
  status :: string
  orderError :: "errorValue option"

record swap =
  swapId :: string
  sendWalletId :: string
  sendSymbol :: string
  sendUnits :: rat
  receiveSymbol :: string
  rate :: "rat option"
  order :: "order option"
  tx :: "transaction option"
  error :: "errorValue option"
  errorType :: "string option"

text \<open>The empty transaction object \<open>{}\<close>: every field is \<open>undefined\<close>.\<close>

definition emptyTx :: transaction where
  "emptyTx =
     \<lparr> transactionId = [], txAmount = None, feeAmount = None, feeSymbol = None,
       receipt = False, sendingError = None, sending = False, sent = False,
       signingError = None, signing = False, signed = False, signingSupported = False,
       txError = None, ethTxData = None \<rparr>"

section \<open>Status derivation (\<open>getSwapStatus\<close>, in services/Bitcore.ts)\<close>

record swapStatus =
  code :: string
  label :: string
  labelClass :: string
  detailsCode :: string
  details :: "errorValue option"

definition createStatus ::
  "string \<Rightarrow> string \<Rightarrow> string \<Rightarrow> string \<Rightarrow> errorValue option \<Rightarrow> swapStatus" where
  "createStatus c l lc dc d =
     \<lparr> code = c, label = l, labelClass = lc, detailsCode = dc, details = d \<rparr>"

definition statusPending :: "string \<Rightarrow> errorValue option \<Rightarrow> swapStatus" where
  "statusPending = createStatus ''pending'' ''Processing'' ''text-primary''"

definition statusFailed :: "string \<Rightarrow> errorValue option \<Rightarrow> swapStatus" where
  "statusFailed = createStatus ''failed'' ''Failed'' ''text-warning''"

definition statusComplete :: "string \<Rightarrow> errorValue option \<Rightarrow> swapStatus" where
  "statusComplete = createStatus ''complete'' ''Complete'' ''text-success''"

text \<open>String helpers of the host language, on ASCII text.\<close>

definition lowerChar :: "char \<Rightarrow> char" where
  "lowerChar c =
     (let n = (of_char c :: nat) in if 65 \<le> n \<and> n \<le> 90 then char_of (n + 32) else c)"

definition toLowerCase :: "string \<Rightarrow> string" where
  "toLowerCase s = map lowerChar s"

fun startsWith :: "string \<Rightarrow> string \<Rightarrow> bool" where
  "startsWith s [] = True"
| "startsWith [] (p # ps) = False"
| "startsWith (c # cs) (p # ps) = (c = p \<and> startsWith cs ps)"

fun stringIncludes :: "string \<Rightarrow> string \<Rightarrow> bool" where
  "stringIncludes [] p = (p = [])"
| "stringIncludes (c # cs) p = (startsWith (c # cs) p \<or> stringIncludes cs p)"

definition isString :: "errorValue option \<Rightarrow> bool" where
  "isString v = (case v of Some (StringValue s) \<Rightarrow> True | _ \<Rightarrow> False)"

definition getSwapFriendlyError :: "swap \<Rightarrow> errorValue option" where
  "getSwapFriendlyError swp =
     (if \<not> truthy (error swp) then error swp
      else case error swp of
             Some (StringValue e) \<Rightarrow>
               (if errorType swp = Some ''pollTransactionReceipt''
                then Some (StringValue ''Failed to check deposit txn status'')
                else if errorType swp = Some ''sendTransaction''
                then Some (StringValue ''Error sending deposit txn'')
                else if errorType swp \<noteq> None
                then Some (StringValue e)
                else Some (StringValue ''Unknown error''))
           | _ \<Rightarrow> Some (StringValue ''Unknown error''))"

definition txStatus :: "transaction \<Rightarrow> swapStatus" where
  "txStatus t =
     (if \<not> receipt t then
        (if truthy (sendingError t) then statusFailed ''send_tx_error'' (sendingError t)
         else if sending t
         then statusPending ''sending'' (Some (StringValue ''sending transaction''))
         else if sent t
         then statusPending ''pending_receipt''
                (Some (StringValue ''waiting for transaction receipt''))
         else if truthy (signingError t) then statusFailed ''sign_tx_error'' (signingError t)
         else if signing t
         then statusPending ''signing'' (Some (StringValue ''awaiting signature''))
         else if signed t then statusPending ''signed'' (Some (StringValue ''signed''))
         else if \<not> signingSupported t
         then statusPending ''signing_unsupported'' (Some (StringValue ''wallet cannot sign''))
         else statusPending ''unsigned'' (Some (StringValue ''unsigned'')))
      else statusPending ''processing'' (Some (StringValue ''processing swap'')))"

definition getSwapStatus :: "swap \<Rightarrow> swapStatus" where
  "getSwapStatus swp =
     (if truthy (error swp) then
        (if (case error swp of
               Some (StringValue e) \<Rightarrow> stringIncludes (toLowerCase e) ''insufficient funds''
             | _ \<Rightarrow> False)
         then statusFailed ''insufficient_funds'' (Some (StringValue ''insufficient funds''))
         else statusFailed ''error'' (getSwapFriendlyError swp))
      else case order swp of
        None \<Rightarrow> statusPending ''creating_order'' (Some (StringValue ''creating swap order''))
      | Some ord \<Rightarrow>
         (if truthy (orderError ord)
          then statusFailed ''order_error''
                 (if isString (orderError ord) then orderError ord
                  else Some (StringValue ''order error''))
          else if status ord = ''failed''
          then statusFailed ''order_failed'' (Some (StringValue ''order was unsuccessful''))
          else if status ord = ''cancelled''
          then statusFailed ''order_cancelled'' (Some (StringValue ''order was cancelled''))
          else if status ord = ''complete''
          then statusComplete ''order_complete''
                 (Some (StringValue ''order completed successfully''))
          else case rate swp of
            None \<Rightarrow> statusPending ''fetching_rate'' (Some (StringValue ''fetching market info''))
          | Some r \<Rightarrow>
             (case tx swp of
                None \<Rightarrow>
                  statusPending ''creating_tx'' (Some (StringValue ''generating transaction''))
              | Some t \<Rightarrow> txStatus t)))"

text \<open>
  The status as the specification words it: the conditions in priority order, the swap's
  own error first, then the terminal conditions of the order, then the pending
  sub-states; the status is that of the first condition that holds.
\<close>

fun firstMatching :: "(bool \<times> 'a) list \<Rightarrow> 'a \<Rightarrow> 'a" where
  "firstMatching [] d = d"
| "firstMatching ((c, v) # rest) d = (if c then v else firstMatching rest d)"

definition orderErrorOf :: "swap \<Rightarrow> errorValue option" where
  "orderErrorOf swp = (case order swp of None \<Rightarrow> None | Some ord \<Rightarrow> orderError ord)"

definition orderStatusIs :: "swap \<Rightarrow> string \<Rightarrow> bool" where
  "orderStatusIs swp s = (case order swp of None \<Rightarrow> False | Some ord \<Rightarrow> status ord = s)"

definition txHas :: "swap \<Rightarrow> (transaction \<Rightarrow> bool) \<Rightarrow> bool" where
  "txHas swp flag = (case tx swp of None \<Rightarrow> False | Some t \<Rightarrow> \<not> receipt t \<and> flag t)"

definition txField :: "swap \<Rightarrow> (transaction \<Rightarrow> errorValue option) \<Rightarrow> errorValue option" where
  "txField swp f = (case tx swp of None \<Rightarrow> None | Some t \<Rightarrow> f t)"

definition statusByPriority :: "swap \<Rightarrow> swapStatus" where
  "statusByPriority swp =
     firstMatching
       [ \<comment> \<open>the swap's error\<close>
         (truthy (error swp) \<and> isString (error swp) \<and>
            (case error swp of
               Some (StringValue e) \<Rightarrow> stringIncludes (toLowerCase e) ''insufficient funds''
             | _ \<Rightarrow> False),
          statusFailed ''insufficient_funds'' (Some (StringValue ''insufficient funds''))),
         (truthy (error swp), statusFailed ''error'' (getSwapFriendlyError swp)),
         \<comment> \<open>the order's terminal conditions\<close>
         (truthy (orderErrorOf swp),
          statusFailed ''order_error''
            (if isString (orderErrorOf swp) then orderErrorOf swp
             else Some (StringValue ''order error''))),
         (orderStatusIs swp ''failed'',
          statusFailed ''order_failed'' (Some (StringValue ''order was unsuccessful''))),
         (orderStatusIs swp ''cancelled'',
          statusFailed ''order_cancelled'' (Some (StringValue ''order was cancelled''))),
         (orderStatusIs swp ''complete'',
          statusComplete ''order_complete''
            (Some (StringValue ''order completed successfully''))),
         \<comment> \<open>the pending sub-states\<close>
         (order swp = None,
          statusPending ''creating_order'' (Some (StringValue ''creating swap order''))),
         (rate swp = None,
          statusPending ''fetching_rate'' (Some (StringValue ''fetching market info''))),
         (tx swp = None,
          statusPending ''creating_tx'' (Some (StringValue ''generating transaction''))),
         (txHas swp (\<lambda>t. truthy (sendingError t)),
          statusFailed ''send_tx_error'' (txField swp sendingError)),
         (txHas swp sending,
          statusPending ''sending'' (Some (StringValue ''sending transaction''))),
         (txHas swp sent,
          statusPending ''pending_receipt''
            (Some (StringValue ''waiting for transaction receipt''))),
         (txHas swp (\<lambda>t. truthy (signingError t)),
          statusFailed ''sign_tx_error'' (txField swp signingError)),
         (txHas swp signing,
          statusPending ''signing'' (Some (StringValue ''awaiting signature''))),
         (txHas swp signed, statusPending ''signed'' (Some (StringValue ''signed''))),
         (txHas swp (\<lambda>t. \<not> signingSupported t),
          statusPending ''signing_unsupported'' (Some (StringValue ''wallet cannot sign''))),
         (txHas swp (\<lambda>t. True), statusPending ''unsigned'' (Some (StringValue ''unsigned''))) ]
       (statusPending ''processing'' (Some (StringValue ''processing swap'')))"

text \<open>
  The status codes as the specification lists them, written out: the machine-readable
  code and details code of the first condition that holds, in the priority order.
\<close>

definition claimedStatusCodes :: "swap \<Rightarrow> string \<times> string" where
  "claimedStatusCodes swp =
     firstMatching
       [ \<comment> \<open>the swap's error\<close>
         (truthy (error swp) \<and> isString (error swp) \<and>
            (case error swp of
               Some (StringValue e) \<Rightarrow> stringIncludes (toLowerCase e) ''insufficient funds''
             | _ \<Rightarrow> False),
          (''failed'', ''insufficient_funds'')),
         (truthy (error swp), (''failed'', ''error'')),
         \<comment> \<open>the order's terminal conditions\<close>
         (truthy (orderErrorOf swp), (''failed'', ''order_error'')),
         (orderStatusIs swp ''failed'', (''failed'', ''order_failed'')),
         (orderStatusIs swp ''cancelled'', (''failed'', ''order_cancelled'')),
         (orderStatusIs swp ''complete'', (''complete'', ''order_complete'')),
         \<comment> \<open>the pending sub-states\<close>
         (order swp = None, (''pending'', ''creating_order'')),
         (rate swp = None, (''pending'', ''fetching_rate'')),
         (tx swp = None, (''pending'', ''creating_tx'')),
         (txHas swp (\<lambda>t. truthy (sendingError t)), (''failed'', ''send_tx_error'')),
         (txHas swp sending, (''pending'', ''sending'')),
         (txHas swp sent, (''pending'', ''pending_receipt'')),
         (txHas swp (\<lambda>t. truthy (signingError t)), (''failed'', ''sign_tx_error'')),
         (txHas swp signing, (''pending'', ''signing'')),
         (txHas swp signed, (''pending'', ''signed'')),
         (txHas swp (\<lambda>t. \<not> signingSupported t), (''pending'', ''signing_unsupported'')),
         (txHas swp (\<lambda>t. True), (''pending'', ''unsigned'')) ]
       (''pending'', ''processing'')"

section \<open>Swundles and the balance check (app/actions/swundle.js)\<close>

record swundle =
  swundleId :: string
  createdDate :: nat
  swaps :: "swap list"

text \<open>
  What the wallet selector reports for a wallet: its label (possibly missing) and its
  known balances by asset symbol. \<open>allWallets\<close> maps wallet ids to these.
\<close>

record walletInfo =
  walletLabel :: "string option"
  balances :: "string \<Rightarrow> bigNumber option"

type_synonym allWallets = "string \<Rightarrow> walletInfo option"

text \<open>
  \<open>walletSendTotals\<close> is an object of objects, \<open>[walletId][symbol] = {amount, feeAmount}\<close>.
  It is modelled as association lists in insertion order. \<open>mergeKey\<close> is the step of
  lodash's \<open>mergeWith\<close> at one key: merge into the value stored there, or into a fresh
  value when the key is new.
\<close>

record sendTotals =
  totalAmount :: "bigNumber option"
  totalFee :: "bigNumber option"

type_synonym walletSendTotals = "(string \<times> (string \<times> sendTotals) list) list"

fun mergeKey :: "string \<Rightarrow> ('v \<Rightarrow> 'v) \<Rightarrow> 'v \<Rightarrow> (string \<times> 'v) list \<Rightarrow> (string \<times> 'v) list" where
  "mergeKey k f d [] = [(k, f d)]"
| "mergeKey k f d ((k', v) # rest) =
     (if k' = k then (k', f v) # rest else (k', v) # mergeKey k f d rest)"

text \<open>
  \<open>Object.entries\<close> visits the keys that are array indices (canonical decimal numerals
  below \<open>2^32 - 1\<close>) first, in ascending numeric order, and then the other keys in
  insertion order.
\<close>

definition isDigit :: "char \<Rightarrow> bool" where
  "isDigit c = (48 \<le> (of_char c :: nat) \<and> (of_char c :: nat) \<le> 57)"

definition digitsValue :: "string \<Rightarrow> nat" where
  "digitsValue k = foldl (\<lambda>n c. 10 * n + ((of_char c :: nat) - 48)) 0 k"

definition isArrayIndex :: "string \<Rightarrow> bool" where
  "isArrayIndex k =
     (k \<noteq> [] \<and> list_all isDigit k \<and> (hd k \<noteq> CHR ''0'' \<or> length k = 1) \<and>
      digitsValue k < 2 ^ 32 - 1)"

definition objectEntries :: "(string \<times> 'v) list \<Rightarrow> (string \<times> 'v) list" where
  "objectEntries xs =
     sort_key (\<lambda>(k, v). digitsValue k) (filter (\<lambda>(k, v). isArrayIndex k) xs)
     @ filter (\<lambda>(k, v). \<not> isArrayIndex k) xs"

text \<open>Reading the totals: the entry stored for a wallet and a symbol.\<close>

definition entryAt :: "walletSendTotals \<Rightarrow> string \<Rightarrow> string \<Rightarrow> sendTotals option" where
  "entryAt T w s = (case map_of T w of None \<Rightarrow> None | Some st \<Rightarrow> map_of st s)"

text \<open>
  The customizer of \<open>mergeSum\<close> at a leaf (\<open>amount\<close> or \<open>feeAmount\<close>). A stored BigNumber is
  replaced by its sum with the merged value; when the merged value is \<open>undefined\<close> that
  sum is \<open>plus(undefined)\<close>, which throws when the library's \<open>ERRORS\<close> setting is on and is
  NaN when it is off (the setting is made outside these files, so it is a parameter).
  When nothing or \<open>undefined\<close> is stored, the merged value takes its place.
\<close>

definition bigNumberError :: errorValue where
  "bigNumberError = ErrorObject ''plus() not a number: undefined''"

definition mergeLeaf ::
  "bool \<Rightarrow> bigNumber option \<Rightarrow> bigNumber option \<Rightarrow> errorValue + bigNumber option" where
  "mergeLeaf errorsOn stored merged =
     (case stored of
        None \<Rightarrow> Inr merged
      | Some a \<Rightarrow>
          (case merged of
             Some b \<Rightarrow> Inr (Some (a + b))
           | None \<Rightarrow> if errorsOn then Inl bigNumberError else Inr (Some NaN)))"

definition mergeSumAmount ::
  "bool \<Rightarrow> walletSendTotals \<Rightarrow> string \<Rightarrow> string \<Rightarrow> bigNumber option
     \<Rightarrow> errorValue + walletSendTotals" where
  "mergeSumAmount errorsOn totals w s a =
     (case mergeLeaf errorsOn
             (case entryAt totals w s of None \<Rightarrow> None | Some e \<Rightarrow> totalAmount e) a of
        Inl err \<Rightarrow> Inl err
      | Inr v \<Rightarrow>
          Inr (mergeKey w
                 (mergeKey s (\<lambda>e. e \<lparr> totalAmount := v \<rparr>)
                    \<lparr> totalAmount = None, totalFee = None \<rparr>)
                 [] totals))"

definition mergeSumFee ::
  "bool \<Rightarrow> walletSendTotals \<Rightarrow> string \<Rightarrow> string \<Rightarrow> bigNumber option
     \<Rightarrow> errorValue + walletSendTotals" where
  "mergeSumFee errorsOn totals w s a =
     (case mergeLeaf errorsOn
             (case entryAt totals w s of None \<Rightarrow> None | Some e \<Rightarrow> totalFee e) a of
        Inl err \<Rightarrow> Inl err
      | Inr v \<Rightarrow>
          Inr (mergeKey w
                 (mergeKey s (\<lambda>e. e \<lparr> totalFee := v \<rparr>)
                    \<lparr> totalAmount = None, totalFee = None \<rparr>)
                 [] totals))"

text \<open>
  The first loop of \<open>checkSufficientBalances\<close>. A swap with a truthy error is skipped;
  destructuring a missing \<open>tx\<close> throws a TypeError; whatever \<open>tx.amount\<close> is, it is merged
  under the send symbol, and the fee amount, when there is one, under the fee symbol (a
  missing fee symbol is the key \<open>undefined\<close>).
\<close>

definition destructureTypeError :: errorValue where
  "destructureTypeError = ErrorObject ''Cannot destructure property of undefined''"

definition feeKey :: "transaction \<Rightarrow> string" where
  "feeKey t = (case feeSymbol t of None \<Rightarrow> ''undefined'' | Some s \<Rightarrow> s)"

fun sumSendTotals ::
  "bool \<Rightarrow> swap list \<Rightarrow> walletSendTotals \<Rightarrow> errorValue + walletSendTotals" where
  "sumSendTotals errorsOn [] totals = Inr totals"
| "sumSendTotals errorsOn (swp # rest) totals =
     (if truthy (error swp) then sumSendTotals errorsOn rest totals
      else case tx swp of
        None \<Rightarrow> Inl destructureTypeError
      | Some t \<Rightarrow>
          (case mergeSumAmount errorsOn totals (sendWalletId swp) (sendSymbol swp)
                  (txAmount t) of
             Inl err \<Rightarrow> Inl err
           | Inr totals1 \<Rightarrow>
               (case feeAmount t of
                  None \<Rightarrow> sumSendTotals errorsOn rest totals1
                | Some f \<Rightarrow>
                    (case mergeSumFee errorsOn totals1 (sendWalletId swp) (feeKey t)
                            (Some f) of
                       Inl err \<Rightarrow> Inl err
                     | Inr totals2 \<Rightarrow> sumSendTotals errorsOn rest totals2))))"

definition knownBalance :: "allWallets \<Rightarrow> string \<Rightarrow> string \<Rightarrow> bigNumber" where
  "knownBalance wallets w s =
     (case wallets w of
        None \<Rightarrow> 0
      | Some info \<Rightarrow> (case balances info s of None \<Rightarrow> 0 | Some b \<Rightarrow> b))"

definition labelOrId :: "allWallets \<Rightarrow> string \<Rightarrow> string" where
  "labelOrId wallets w =
     (case wallets w of
        None \<Rightarrow> w
      | Some info \<Rightarrow> (case walletLabel info of None \<Rightarrow> w | Some l \<Rightarrow> if l \<noteq> [] then l else w))"

definition insufficientBalance :: "string \<Rightarrow> string \<Rightarrow> errorValue" where
  "insufficientBalance symbol lbl =
     ErrorObject (''Insufficient '' @ symbol @ '' balance in wallet '' @ lbl
                    @ '' for transaction fees.'')"

text \<open>
  The second loop, over the entries of the totals and of each wallet's totals: the first
  pair visited whose total exceeds the balance throws.
\<close>

fun checkSymbols :: "allWallets \<Rightarrow> string \<Rightarrow> (string \<times> sendTotals) list \<Rightarrow> errorValue option" where
  "checkSymbols wallets w [] = None"
| "checkSymbols wallets w ((symbol, e) # rest) =
     (let totalAmount0 = (case totalAmount e of None \<Rightarrow> 0 | Some a \<Rightarrow> a);
          totalFee0 = (case totalFee e of None \<Rightarrow> 0 | Some f \<Rightarrow> f);
          balance = knownBalance wallets w symbol;
          amountPlusFee = totalAmount0 + totalFee0
      in if isNegative (bnMinus balance amountPlusFee)
         then Some (insufficientBalance symbol (labelOrId wallets w))
         else checkSymbols wallets w rest)"

fun checkWallets :: "allWallets \<Rightarrow> walletSendTotals \<Rightarrow> errorValue option" where
  "checkWallets wallets [] = None"
| "checkWallets wallets ((w, totals) # rest) =
     (case checkSymbols wallets w (objectEntries totals) of
        Some e \<Rightarrow> Some e
      | None \<Rightarrow> checkWallets wallets rest)"

definition checkSufficientBalances ::
  "bool \<Rightarrow> allWallets \<Rightarrow> swundle \<Rightarrow> errorValue + swundle" where
  "checkSufficientBalances errorsOn wallets swndl =
     (case sumSendTotals errorsOn (swaps swndl) [] of
        Inl e \<Rightarrow> Inl e
      | Inr totals \<Rightarrow>
          (case checkWallets wallets (objectEntries totals) of
             Some e \<Rightarrow> Inl e
           | None \<Rightarrow> Inr swndl))"

text \<open>
  The totals as the specification words them: for a wallet and an asset symbol, the send
  amounts of the error-free swaps sending that asset from that wallet, plus the fee
  amounts of the error-free swaps of that wallet whose fee is paid in that asset.
  \<open>sendPairs\<close> lists the (wallet, asset) pairs that occur. A total exceeds a balance when
  the balance minus the total is negative.
\<close>

definition sendShare :: "string \<Rightarrow> string \<Rightarrow> swap \<Rightarrow> bigNumber" where
  "sendShare w s swp =
     (if truthy (error swp) then 0
      else case tx swp of
        None \<Rightarrow> 0
      | Some t \<Rightarrow>
          (if sendWalletId swp = w \<and> sendSymbol swp = s
           then (case txAmount t of None \<Rightarrow> 0 | Some a \<Rightarrow> a) else 0)
          + (case feeAmount t of
               None \<Rightarrow> 0
             | Some f \<Rightarrow> if sendWalletId swp = w \<and> feeKey t = s then f else 0))"

definition sendTotal :: "swap list \<Rightarrow> string \<Rightarrow> string \<Rightarrow> bigNumber" where
  "sendTotal swps w s = sum_list (map (sendShare w s) swps)"

definition swapPairs :: "swap \<Rightarrow> (string \<times> string) list" where
  "swapPairs swp =
     (if truthy (error swp) then []
      else case tx swp of
        None \<Rightarrow> []
      | Some t \<Rightarrow>
          (sendWalletId swp, sendSymbol swp)
          # (case feeAmount t of None \<Rightarrow> [] | Some f \<Rightarrow> [(sendWalletId swp, feeKey t)]))"

definition sendPairs :: "swap list \<Rightarrow> (string \<times> string) list" where
  "sendPairs swps = concat (map swapPairs swps)"

definition exceedsBalance :: "bigNumber \<Rightarrow> bigNumber \<Rightarrow> bool" where
  "exceedsBalance needed balance = isNegative (bnMinus balance needed)"

text \<open>Helpers for reading the totals: the value of an entry and of a pair.\<close>

definition entryValue :: "sendTotals \<Rightarrow> bigNumber" where
  "entryValue e = (case totalAmount e of None \<Rightarrow> 0 | Some a \<Rightarrow> a)
                + (case totalFee e of None \<Rightarrow> 0 | Some f \<Rightarrow> f)"

definition valueAt :: "walletSendTotals \<Rightarrow> string \<Rightarrow> string \<Rightarrow> bigNumber" where
  "valueAt T w s = (case entryAt T w s of None \<Rightarrow> 0 | Some e \<Rightarrow> entryValue e)"

definition hasPair :: "walletSendTotals \<Rightarrow> string \<Rightarrow> string \<Rightarrow> bool" where
  "hasPair T w s = (entryAt T w s \<noteq> None)"

definition exceeds :: "allWallets \<Rightarrow> string \<Rightarrow> string \<Rightarrow> sendTotals \<Rightarrow> bool" where
  "exceeds W w s e = exceedsBalance (entryValue e) (knownBalance W w s)"

definition wellKeyed :: "walletSendTotals \<Rightarrow> bool" where
  "wellKeyed T = (distinct (map fst T) \<and> (\<forall>(w, st) \<in> set T. distinct (map fst st)))"

section \<open>Account-model transactions (\<open>EthereumWallet\<close>, in services/Bitcore.ts)\<close>

text \<open>An asset; \<open>symbol\<close> of the source is \<open>assetSymbol\<close> here.\<close>

record asset =
  assetSymbol :: string
  ERC20 :: bool
  contractAddress :: string
  decimals :: nat

text \<open>
  The options of \<open>_createTransaction\<close>; \<open>nonce\<close>, \<open>gasPrice\<close>, \<open>gasLimit\<close> and \<open>gas\<close> of the
  source carry the suffix \<open>Option\<close> here. \<open>numberOr a b\<close> is \<open>a || b\<close> on optional numbers:
  \<open>undefined\<close> and \<open>0\<close> are falsy.
\<close>

record txOptions =
  previousTx :: "transaction option"
  nonceOption :: "nat option"
  gasPriceOption :: "nat option"
  gasLimitOption :: "nat option"
  gasOption :: "nat option"

definition noOptions :: txOptions where
  "noOptions = \<lparr> previousTx = None, nonceOption = None, gasPriceOption = None,
                 gasLimitOption = None, gasOption = None \<rparr>"

definition numberOr :: "nat option \<Rightarrow> nat option \<Rightarrow> nat option" where
  "numberOr a b = (case a of None \<Rightarrow> b | Some n \<Rightarrow> if n \<noteq> 0 then Some n else b)"

text \<open>
  What \<open>_createTransaction\<close> uses from outside the modelled files, as parameters: the
  configured chain id, the network oracle (\<open>web3.eth\<close>: the gas price, absent when the
  request fails; the gas estimate; the transaction count of an address), the unit
  conversions of \<open>Utilities/convert\<close> and the base class's \<open>_newTransaction\<close>.
\<close>

record ethereumEnv =
  ethereumChainId :: nat
  getGasPrice :: "nat option"
  estimateGas :: "txSkeleton \<Rightarrow> nat"
  getTransactionCount :: "string \<Rightarrow> nat"
  toSmallestDenomination :: "rat \<Rightarrow> nat \<Rightarrow> rat"
  toTxFee :: "nat \<Rightarrow> nat \<Rightarrow> rat"
  newTransaction :: "asset \<Rightarrow> string \<Rightarrow> rat \<Rightarrow> transaction"

definition DEFAULT_GAS_PRICE :: nat where
  "DEFAULT_GAS_PRICE = 21000000000"

definition getDefaultFeeRate :: "ethereumEnv \<Rightarrow> nat" where
  "getDefaultFeeRate net = (case getGasPrice net of None \<Rightarrow> DEFAULT_GAS_PRICE | Some g \<Rightarrow> g)"

definition unsupportedAsset :: "asset \<Rightarrow> errorValue" where
  "unsupportedAsset ast =
     ErrorObject (''Unsupported asset '' @ assetSymbol ast
                    @ '' provided to EthereumWallet.createTransaction'')"

definition typeErrorUndefined :: errorValue where
  "typeErrorUndefined = ErrorObject ''Cannot read property of undefined''"

text \<open>The skeleton: a native transfer, a token transfer, or an unsupported asset.\<close>

definition txSkeletonFor ::
  "ethereumEnv \<Rightarrow> string \<Rightarrow> string \<Rightarrow> rat \<Rightarrow> asset \<Rightarrow> errorValue + txSkeleton" where
  "txSkeletonFor net fromAddress toAddress amt ast =
     (if assetSymbol ast = ''ETH''
      then Inr \<lparr> chainId = ethereumChainId net, txFrom = fromAddress,
                 txValue = toSmallestDenomination net amt (decimals ast),
                 txCallData = NoData, txTo = toAddress \<rparr>
      else if ERC20 ast
      then Inr \<lparr> chainId = ethereumChainId net, txFrom = fromAddress, txValue = 0,
                 txCallData = TokenSendData toAddress amt (decimals ast),
                 txTo = contractAddress ast \<rparr>
      else Inl (unsupportedAsset ast))"

text \<open>
  The custom nonce: the explicit option when given; otherwise one more than the
  previous transaction's nonce when that transaction is from the same address
  (compared in lower case); otherwise none.
\<close>

definition customNonceOf :: "txOptions \<Rightarrow> string \<Rightarrow> errorValue + nat option" where
  "customNonceOf options fromAddress =
     (case nonceOption options of
        Some n \<Rightarrow> Inr (Some n)
      | None \<Rightarrow>
          (case previousTx options of
             None \<Rightarrow> Inr None
           | Some prev \<Rightarrow>
               (case ethTxData prev of
                  None \<Rightarrow> Inl typeErrorUndefined
                | Some d \<Rightarrow>
                    if toLowerCase (txFrom d) = toLowerCase fromAddress
                    then Inr (Some (nonce d + 1))
                    else Inr None)))"

definition createTransaction ::
  "ethereumEnv \<Rightarrow> string \<Rightarrow> string \<Rightarrow> rat \<Rightarrow> asset \<Rightarrow> txOptions \<Rightarrow> errorValue + transaction" where
  "createTransaction net fromAddress toAddress amt ast options =
     (case txSkeletonFor net fromAddress toAddress amt ast of
        Inl e \<Rightarrow> Inl e
      | Inr skeleton \<Rightarrow>
          (case customNonceOf options (txFrom skeleton) of
             Inl e \<Rightarrow> Inl e
           | Inr customNonce \<Rightarrow>
               (let customGasPrice = gasPriceOption options;
                    customGasLimit = numberOr (gasLimitOption options) (gasOption options);
                    gasPrice1 = (case numberOr customGasPrice None of
                                   Some g \<Rightarrow> g | None \<Rightarrow> getDefaultFeeRate net);
                    gasLimit1 = (case numberOr customGasLimit None of
                                   Some g \<Rightarrow> g | None \<Rightarrow> estimateGas net skeleton);
                    nonce1 = (case numberOr customNonce None of
                                Some n \<Rightarrow> n
                              | None \<Rightarrow> getTransactionCount net (txFrom skeleton))
                in Inr ((newTransaction net ast toAddress amt)
                     \<lparr> feeAmount := Some (Num (toTxFee net gasLimit1 gasPrice1)),
                       feeSymbol := Some ''ETH'',
                       ethTxData := Some
                         \<lparr> chainId = chainId skeleton, txFrom = txFrom skeleton,
                           txValue = txValue skeleton, txCallData = txCallData skeleton,
                           txTo = txTo skeleton, gasPrice = gasPrice1, gas = gasLimit1,
                           nonce = nonce1 \<rparr> \<rparr>))))"

section \<open>The swundle orchestrator (app/actions/swundle.js)\<close>

text \<open>
  A promise either resolves with a value or rejects with an error; a thunk's effect on
  the store is the list of swundle actions it dispatches, in order.
\<close>

datatype 'a outcome = Resolved 'a | Rejected errorValue

datatype swundleAction =
    InitStarted string | InitSuccess string | InitFailed string errorValue
  | SignStarted string | SignSuccess string | SignFailed string "errorValue option"
  | SendStarted string | SendSuccess string | SendFailed string "errorValue option"

text \<open>
  The payloads of the failure actions: \<open>e.message || e\<close> for init, \<open>e.message\<close> for sign
  and send (\<open>undefined\<close> for a thrown string).
\<close>

definition messageOrError :: "errorValue \<Rightarrow> errorValue" where
  "messageOrError e =
     (case e of
        ErrorObject m \<Rightarrow> if m \<noteq> [] then StringValue m else ErrorObject m
      | StringValue s \<Rightarrow> StringValue s)"

definition errorMessage :: "errorValue \<Rightarrow> errorValue option" where
  "errorMessage e = (case e of ErrorObject m \<Rightarrow> Some (StringValue m) | StringValue s \<Rightarrow> None)"

record walletInstance =
  isAggregateTransactionSupported :: "string \<Rightarrow> bool"

text \<open>
  The thunks and services the orchestrator calls that live outside the modelled files
  (\<open>Actions/swap\<close>, \<open>Actions/tx\<close>, \<open>Services/Wallet\<close>, the selectors), as parameters. A
  rejected promise or a throw is \<open>Inl\<close>.
\<close>

record 'so actionEnv =
  updateMarketInfo :: "swap \<Rightarrow> errorValue + swap"
  checkSufficientDeposit :: "swap \<Rightarrow> errorValue + swap"
  createOrder :: "swap \<Rightarrow> errorValue + swap"
  createSwapTx :: "swap \<Rightarrow> txOptions \<Rightarrow> errorValue + transaction"
  createAggregateTx ::
    "string \<Rightarrow> (string \<times> rat) list \<Rightarrow> string \<Rightarrow> txOptions \<Rightarrow> errorValue + transaction"
  signSwap :: "swap \<Rightarrow> errorValue + swap"
  sendSwap :: "swap \<Rightarrow> 'so \<Rightarrow> errorValue + swap"
  walletGetOrThrow :: "string \<Rightarrow> errorValue + walletInstance"
  getAllWallets :: allWallets
  getSwundle :: "string \<Rightarrow> swundle option"
  bigNumberErrors :: bool

text \<open>
  Modelled from the spec: \<open>processArray\<close> of \<open>Utilities/helpers\<close> is not among the source
  files. It applies the handler to the elements one after the other, in order, and
  rejects at the first handler that rejects.
\<close>

fun processArray :: "('a \<Rightarrow> errorValue + 'b) \<Rightarrow> 'a list \<Rightarrow> errorValue + 'b list" where
  "processArray handler [] = Inr []"
| "processArray handler (x # xs) =
     (case handler x of
        Inl e \<Rightarrow> Inl e
      | Inr y \<Rightarrow> (case processArray handler xs of Inl e \<Rightarrow> Inl e | Inr ys \<Rightarrow> Inr (y # ys)))"

text \<open>
  \<open>Promise.all\<close> over mapped promises: every promise is started; the result rejects when
  one of them rejects. Which rejection wins is a matter of timing; the model takes the
  first in list order.
\<close>

fun promiseAll :: "('a \<Rightarrow> errorValue + 'b) \<Rightarrow> 'a list \<Rightarrow> errorValue + 'b list" where
  "promiseAll f [] = Inr []"
| "promiseAll f (x # xs) =
     (case f x of
        Inl e \<Rightarrow> Inl e
      | Inr y \<Rightarrow> (case promiseAll f xs of Inl e \<Rightarrow> Inl e | Inr ys \<Rightarrow> Inr (y # ys)))"

definition forEachSwap :: "swundle \<Rightarrow> (swap \<Rightarrow> errorValue + swap) \<Rightarrow> errorValue + swundle" where
  "forEachSwap swndl handler =
     (case processArray handler (swaps swndl) of
        Inl e \<Rightarrow> Inl e
      | Inr swps \<Rightarrow> Inr (swndl \<lparr> swaps := swps \<rparr>))"

text \<open>lodash's \<open>groupBy\<close>: the groups in order of first occurrence, each in list order.\<close>

definition groupBy :: "('a \<Rightarrow> string) \<Rightarrow> 'a list \<Rightarrow> (string \<times> 'a list) list" where
  "groupBy key xs = foldl (\<lambda>groups x. mergeKey (key x) (\<lambda>members. members @ [x]) [] groups) [] xs"

text \<open>
  What \<open>createSwundleTxs\<close> does for one (wallet, asset) group: nothing; or one call of
  \<open>createAggregateTx\<close> with its outputs and result, followed by the \<open>setSwapTx\<close> calls
  \<open>(swap id, tx, index)\<close>; or the sequence of \<open>createSwapTx\<close> calls with the options passed
  and the result of each.
\<close>

datatype groupTxs =
    NoTransaction
  | AggregateTx "(string \<times> rat) list" "errorValue + transaction"
      "(string \<times> transaction \<times> nat) list"
  | SwapTxs "(swap \<times> txOptions \<times> (errorValue + transaction)) list"

text \<open>The sequential branch: \<open>previousTx\<close> is replaced by each transaction built without error.\<close>

fun createSwapTxs ::
  "'so actionEnv \<Rightarrow> txOptions \<Rightarrow> transaction option \<Rightarrow> swap list
     \<Rightarrow> (swap \<times> txOptions \<times> (errorValue + transaction)) list" where
  "createSwapTxs env options prev [] = []"
| "createSwapTxs env options prev (swp # rest) =
     (let passed = options \<lparr> previousTx := prev \<rparr>
      in case createSwapTx env swp passed of
           Inl e \<Rightarrow> [(swp, passed, Inl e)]
         | Inr t \<Rightarrow>
             (swp, passed, Inr t)
             # createSwapTxs env options (if \<not> truthy (txError t) then Some t else prev) rest)"

fun depositOutputs :: "swap list \<Rightarrow> errorValue + (string \<times> rat) list" where
  "depositOutputs [] = Inr []"
| "depositOutputs (swp # rest) =
     (case order swp of
        None \<Rightarrow> Inl typeErrorUndefined
      | Some ord \<Rightarrow>
          (case depositOutputs rest of
             Inl e \<Rightarrow> Inl e
           | Inr outs \<Rightarrow> Inr ((deposit ord, sendUnits swp) # outs)))"

definition createGroupTxs ::
  "'so actionEnv \<Rightarrow> walletInstance \<Rightarrow> string \<Rightarrow> string \<Rightarrow> swap list \<Rightarrow> txOptions
     \<Rightarrow> errorValue + groupTxs" where
  "createGroupTxs env walletInst walletId symbol swps options =
     (if isAggregateTransactionSupported walletInst symbol
      then (if list_ex (\<lambda>swp. truthy (error swp)) swps then Inr NoTransaction
            else case depositOutputs swps of
                   Inl e \<Rightarrow> Inl e
                 | Inr outs \<Rightarrow>
                     (case createAggregateTx env walletId outs symbol options of
                        Inl e \<Rightarrow> Inr (AggregateTx outs (Inl e) [])
                      | Inr t \<Rightarrow>
                          Inr (AggregateTx outs (Inr t)
                                 (map (\<lambda>(i, swp). (swapId swp, t, i)) (enumerate 0 swps)))))
      else Inr (SwapTxs (createSwapTxs env options None swps)))"

text \<open>
  The groups of a swundle, wallet by wallet and asset by asset. The result is the list
  of groups started, with what was done for each, and the error thrown while starting
  a group, if any (an unknown wallet, or a swap without an order in an aggregate group).
\<close>

type_synonym groupLog = "(string \<times> string \<times> groupTxs) list"

fun createAssetGroups ::
  "'so actionEnv \<Rightarrow> walletInstance \<Rightarrow> string \<Rightarrow> txOptions \<Rightarrow> (string \<times> swap list) list
     \<Rightarrow> groupLog \<times> errorValue option" where
  "createAssetGroups env walletInst walletId options [] = ([], None)"
| "createAssetGroups env walletInst walletId options ((symbol, swps) # rest) =
     (case createGroupTxs env walletInst walletId symbol swps options of
        Inl e \<Rightarrow> ([], Some e)
      | Inr g \<Rightarrow>
          (case createAssetGroups env walletInst walletId options rest of
             (started, thrown) \<Rightarrow> ((walletId, symbol, g) # started, thrown)))"

fun createWalletGroups ::
  "'so actionEnv \<Rightarrow> txOptions \<Rightarrow> (string \<times> swap list) list \<Rightarrow> groupLog \<times> errorValue option" where
  "createWalletGroups env options [] = ([], None)"
| "createWalletGroups env options ((walletId, walletSwaps) # rest) =
     (case walletGetOrThrow env walletId of
        Inl e \<Rightarrow> ([], Some e)
      | Inr walletInst \<Rightarrow>
          (case createAssetGroups env walletInst walletId options
                  (groupBy sendSymbol walletSwaps) of
             (started, Some e) \<Rightarrow> (started, Some e)
           | (started, None) \<Rightarrow>
               (case createWalletGroups env options rest of
                  (started2, thrown) \<Rightarrow> (started @ started2, thrown))))"

text \<open>The rejection of a group: a failed aggregate build, or a rejected \<open>createSwapTx\<close>.\<close>

fun groupRejection :: "groupTxs \<Rightarrow> errorValue option" where
  "groupRejection NoTransaction = None"
| "groupRejection (AggregateTx outs (Inl e) attached) = Some e"
| "groupRejection (AggregateTx outs (Inr t) attached) = None"
| "groupRejection (SwapTxs calls) =
     (case calls of
        [] \<Rightarrow> None
      | c # cs \<Rightarrow> (case snd (snd (last calls)) of Inl e \<Rightarrow> Some e | Inr t \<Rightarrow> None))"

fun firstRejection :: "groupLog \<Rightarrow> errorValue option" where
  "firstRejection [] = None"
| "firstRejection ((w, s, g) # rest) =
     (case groupRejection g of Some e \<Rightarrow> Some e | None \<Rightarrow> firstRejection rest)"

definition createSwundleTxs ::
  "'so actionEnv \<Rightarrow> swundle \<Rightarrow> txOptions \<Rightarrow> groupLog \<times> (errorValue + swundle option)" where
  "createSwundleTxs env swndl options =
     (case createWalletGroups env options (groupBy sendWalletId (swaps swndl)) of
        (started, Some e) \<Rightarrow> (started, Inl e)
      | (started, None) \<Rightarrow>
          (started, case firstRejection started of
                   Some e \<Rightarrow> Inl e
                 | None \<Rightarrow> Inr (getSwundle env (swundleId swndl))))"

text \<open>The promise chain of \<open>initSwundle\<close> up to its \<open>catch\<close>.\<close>

definition initSteps :: "'so actionEnv \<Rightarrow> swundle \<Rightarrow> errorValue + swundle option" where
  "initSteps env swndl =
     (case promiseAll
             (\<lambda>swp. case updateMarketInfo env swp of
                       Inl e \<Rightarrow> Inl e
                     | Inr swp1 \<Rightarrow> checkSufficientDeposit env swp1)
             (swaps swndl) of
        Inl e \<Rightarrow> Inl e
      | Inr swps \<Rightarrow>
          (case checkSufficientBalances (bigNumberErrors env) (getAllWallets env)
                  (swndl \<lparr> swaps := swps \<rparr>) of
             Inl e \<Rightarrow> Inl e
           | Inr s1 \<Rightarrow>
               (case forEachSwap s1 (createOrder env) of
                  Inl e \<Rightarrow> Inl e
                | Inr s2 \<Rightarrow> snd (createSwundleTxs env s2 noOptions))))"

definition initSwundle ::
  "'so actionEnv \<Rightarrow> swundle \<Rightarrow> swundleAction list \<times> swundle option outcome" where
  "initSwundle env swndl =
     (case initSteps env swndl of
        Inr s \<Rightarrow> ([InitStarted (swundleId swndl), InitSuccess (swundleId swndl)], Resolved s)
      | Inl e \<Rightarrow>
          ([InitStarted (swundleId swndl), InitFailed (swundleId swndl) (messageOrError e)],
           Resolved None))"

definition signSwundle ::
  "'so actionEnv \<Rightarrow> swundle \<Rightarrow> swundleAction list \<times> swundle option outcome" where
  "signSwundle env swndl =
     (case forEachSwap swndl (signSwap env) of
        Inr s \<Rightarrow>
          ([SignStarted (swundleId swndl), SignSuccess (swundleId swndl)],
           Resolved (getSwundle env (swundleId swndl)))
      | Inl e \<Rightarrow>
          ([SignStarted (swundleId swndl), SignFailed (swundleId swndl) (errorMessage e)],
           Rejected e))"

definition sendSwundle ::
  "'so actionEnv \<Rightarrow> swundle \<Rightarrow> 'so \<Rightarrow> swundleAction list \<times> swundle option outcome" where
  "sendSwundle env swndl sendOptions =
     (case forEachSwap swndl (\<lambda>swp. sendSwap env swp sendOptions) of
        Inr s \<Rightarrow>
          ([SendStarted (swundleId swndl), SendSuccess (swundleId swndl)],
           Resolved (getSwundle env (swundleId swndl)))
      | Inl e \<Rightarrow>
          ([SendStarted (swundleId swndl), SendFailed (swundleId swndl) (errorMessage e)],
           Rejected e))"

text \<open>
  Sample data for the orchestrator: a wallet \<open>w1\<close> labelled \<open>Main\<close> holding 10 ETH, two
  swaps that each send 6 ETH from it, and an environment whose market, deposit and order
  steps succeed while signing and sending fail.
\<close>

definition sampleTx :: "string \<Rightarrow> rat \<Rightarrow> transaction" where
  "sampleTx i a =
     \<lparr> transactionId = i, txAmount = Some (Num a), feeAmount = None,
       feeSymbol = Some ''ETH'',
       receipt = False, sendingError = None, sending = False, sent = False,
       signingError = None, signing = False, signed = False, signingSupported = True,
       txError = None, ethTxData = None \<rparr>"

definition sampleSwap :: "string \<Rightarrow> string \<Rightarrow> string \<Rightarrow> rat \<Rightarrow> swap" where
  "sampleSwap i w s a =
     \<lparr> swapId = i, sendWalletId = w, sendSymbol = s, sendUnits = a, receiveSymbol = ''BTC'',
       rate = Some 1,
       order = Some \<lparr> deposit = ''D'' @ i, status = ''awaiting deposit'', orderError = None \<rparr>,
       tx = Some (sampleTx i a), error = None, errorType = None \<rparr>"

definition sampleWallets :: allWallets where
  "sampleWallets w =
     (if w = ''w1''
      then Some \<lparr> walletLabel = Some ''Main'',
                  balances = (\<lambda>s. if s = ''ETH'' then Some (Num 10) else None) \<rparr>
      else None)"

definition sampleSwundle :: swundle where
  "sampleSwundle =
     \<lparr> swundleId = ''s1'', createdDate = 0,
       swaps = [sampleSwap ''a'' ''w1'' ''ETH'' 6, sampleSwap ''b'' ''w1'' ''ETH'' 6] \<rparr>"

definition sampleEnv :: "unit actionEnv" where
  "sampleEnv =
     \<lparr> updateMarketInfo = Inr, checkSufficientDeposit = Inr, createOrder = Inr,
       createSwapTx = (\<lambda>swp options. Inr (sampleTx (swapId swp) (sendUnits swp))),
       createAggregateTx = (\<lambda>w outs s options. Inr (sampleTx w 0)),
       signSwap = (\<lambda>swp. Inl (ErrorObject ''device disconnected'')),
       sendSwap = (\<lambda>swp so. Inl (StringValue ''broadcast failed'')),
       walletGetOrThrow = (\<lambda>w. Inr \<lparr> isAggregateTransactionSupported = (\<lambda>s. s = ''BTC'') \<rparr>),
       getAllWallets = sampleWallets,
       getSwundle = (\<lambda>i. None),
       bigNumberErrors = True \<rparr>"

text \<open>A rejection with a string, as the module set-up of services/Bitcore.ts makes.\<close>

definition wasmError :: errorValue where
  "wasmError = StringValue ''failed to load fastxpub.wasm''"

text \<open>
  Two more swundles on the wallet \<open>w1\<close>: a 12 ETH swap followed by an error-free swap
  whose transaction is the empty object, and the same with the second swap's transaction
  missing.
\<close>

definition sampleDraftlessSwundle :: swundle where
  "sampleDraftlessSwundle =
     \<lparr> swundleId = ''s5'', createdDate = 0,
       swaps = [sampleSwap ''a'' ''w1'' ''ETH'' 12,
                (sampleSwap ''b'' ''w1'' ''ETH'' 1) \<lparr> tx := Some emptyTx \<rparr>] \<rparr>"

definition sampleTxlessSwundle :: swundle where
  "sampleTxlessSwundle =
     \<lparr> swundleId = ''s6'', createdDate = 0,
       swaps = [sampleSwap ''a'' ''w1'' ''ETH'' 12,
                (sampleSwap ''b'' ''w1'' ''ETH'' 1) \<lparr> tx := None \<rparr>] \<rparr>"

text \<open>
  The swaps of a swundle funded by wallet \<open>w\<close> with asset \<open>s\<close>, in swundle order, and the
  deposit address of a swap's order.
\<close>

definition groupOf :: "swundle \<Rightarrow> string \<Rightarrow> string \<Rightarrow> swap list" where
  "groupOf swndl w s = filter (\<lambda>swp. sendWalletId swp = w \<and> sendSymbol swp = s) (swaps swndl)"

definition depositOf :: "swap \<Rightarrow> string" where
  "depositOf swp = (case order swp of None \<Rightarrow> [] | Some ord \<Rightarrow> deposit ord)"

definition sampleBtcSwundle :: swundle where
  "sampleBtcSwundle =
     \<lparr> swundleId = ''s2'', createdDate = 0,
       swaps = [sampleSwap ''a'' ''w1'' ''BTC'' 1, sampleSwap ''b'' ''w1'' ''BTC'' 2] \<rparr>"

text \<open>
  Modelled from the spec: \<open>createSwapTx\<close> of \<open>Actions/swap\<close> is not among the source files.
  For a swap funded by an Ethereum wallet it builds the swap's transaction with the
  wallet's \<open>_createTransaction\<close>, sending the swap's \<open>sendUnits\<close> of the send asset from the
  wallet's address to the order's deposit address with the options it is given; a
  failure is recorded as the transaction's error instead of being thrown.
\<close>

definition createSwapTxEthereum ::
  "ethereumEnv \<Rightarrow> (string \<Rightarrow> string) \<Rightarrow> (string \<Rightarrow> asset) \<Rightarrow> swap \<Rightarrow> txOptions
     \<Rightarrow> errorValue + transaction" where
  "createSwapTxEthereum net addressOf assetOf swp options =
     (case createTransaction net (addressOf (sendWalletId swp)) (depositOf swp) (sendUnits swp)
             (assetOf (sendSymbol swp)) options of
        Inl e \<Rightarrow>
          Inr ((newTransaction net (assetOf (sendSymbol swp)) (depositOf swp) (sendUnits swp))
                 \<lparr> txError := Some e \<rparr>)
      | Inr t \<Rightarrow> Inr t)"

text \<open>The nonces of the transactions built without error in a group, and in all groups.\<close>

fun callNonces :: "(swap \<times> txOptions \<times> (errorValue + transaction)) list \<Rightarrow> nat list" where
  "callNonces [] = []"
| "callNonces ((swp, passed, Inl e) # rest) = callNonces rest"
| "callNonces ((swp, passed, Inr t) # rest) =
     (case ethTxData t of
        None \<Rightarrow> callNonces rest
      | Some d \<Rightarrow> if truthy (txError t) then callNonces rest else nonce d # callNonces rest)"

fun builtNonces :: "groupLog \<Rightarrow> nat list" where
  "builtNonces [] = []"
| "builtNonces ((w, s, SwapTxs calls) # rest) = callNonces calls @ builtNonces rest"
| "builtNonces ((w, s, g) # rest) = builtNonces rest"

text \<open>
  Sample data: a network on which every address has sent 7 transactions, the assets ETH
  and OMG (an ERC20 token), and swundles of two swaps funded from the Ethereum wallet
  \<open>w1\<close>: both sending ETH, and one sending ETH and one sending OMG.
\<close>

definition sampleNet :: ethereumEnv where
  "sampleNet =
     \<lparr> ethereumChainId = 1, getGasPrice = Some 5, estimateGas = (\<lambda>skeleton. 21000),
       getTransactionCount = (\<lambda>a. 7),
       toSmallestDenomination = (\<lambda>a d. a * 10 ^ d),
       toTxFee = (\<lambda>l p. of_nat (l * p) / 10 ^ 18),
       newTransaction = (\<lambda>ast toAddress amt. sampleTx toAddress amt) \<rparr>"

definition sampleAssetOf :: "string \<Rightarrow> asset" where
  "sampleAssetOf s =
     (if s = ''ETH''
      then \<lparr> assetSymbol = ''ETH'', ERC20 = False, contractAddress = [], decimals = 18 \<rparr>
      else \<lparr> assetSymbol = s, ERC20 = True, contractAddress = ''0xToken'', decimals = 18 \<rparr>)"

definition sampleEthEnv :: "unit actionEnv" where
  "sampleEthEnv =
     sampleEnv \<lparr> createSwapTx := createSwapTxEthereum sampleNet (\<lambda>w. ''0xAbC'') sampleAssetOf \<rparr>"

definition sampleEthSwundle :: swundle where
  "sampleEthSwundle =
     \<lparr> swundleId = ''s3'', createdDate = 0,
       swaps = [sampleSwap ''a'' ''w1'' ''ETH'' 1, sampleSwap ''b'' ''w1'' ''ETH'' 2] \<rparr>"

definition sampleMixedSwundle :: swundle where
  "sampleMixedSwundle =
     \<lparr> swundleId = ''s4'', createdDate = 0,
       swaps = [sampleSwap ''a'' ''w1'' ''ETH'' 1, sampleSwap ''b'' ''w1'' ''OMG'' 2] \<rparr>"

section \<open>Restoration of persisted state (app/actions/swundle.js)\<close>

text \<open>
  Persisted records are plain JSON objects. Of a persisted order and transaction the
  restoration reads the creation date \<open>created\<close> and the id; the fields a restored swap
  carries have the prefix \<open>rs\<close> here (\<open>rsId\<close> is \<open>id\<close>, \<open>rsTxId\<close> is \<open>txId\<close>, ...). Dates are
  numbers; a missing property is \<open>None\<close>; a missing or empty symbol is the empty string.
\<close>

record storedOrder =
  created :: "nat option"

record storedTx =
  storedTxId :: "string option"

record restoredSwap =
  rsId :: "string option"
  rsTxId :: "string option"
  rsSendWalletId :: string
  rsSendSymbol :: string
  rsSendUnits :: rat
  rsReceiveWalletId :: string
  rsReceiveSymbol :: string
  rsFee :: rat
  rsOrder :: "storedOrder option"
  rsRate :: rat
  rsTx :: "storedTx option"

text \<open>The V1 shape: send-groups, each with its list of receive entries.\<close>

record receiveEntry =
  reWalletId :: string
  reSymbol :: string
  reUnit :: rat
  reFee :: rat
  reOrder :: "storedOrder option"
  reRate :: rat
  reTxHash :: "string option"
  reTx :: "storedTx option"

record sendGroup =
  sgWalletId :: string
  sgSymbol :: string
  sgList :: "receiveEntry list"

text \<open>
  The V2 shape: the \<open>swap\<close> property is an array, an object (its values in key order), or
  neither; \<open>tx\<close> and \<open>swundle\<close> are present or not.
\<close>

datatype swapCollection =
    NoSwapCollection
  | SwapArray "restoredSwap list"
  | SwapObject "(string \<times> restoredSwap) list"

record storedSwundle =
  ssId :: string
  ssCreatedDate :: nat
  ssSwaps :: "string list"

record storedV2 =
  stSwap :: swapCollection
  stTx :: "(string \<times> storedTx) list option"
  stSwundle :: "(string \<times> storedSwundle) list option"

datatype storedState =
    StoredNothing
  | StoredObject storedV2
  | StoredArray "sendGroup list"

datatype restoreAction =
    TxsRestored "(string \<times> storedTx) list"
  | TxRestored storedTx
  | SwapsRestored "restoredSwap list"
  | SwundlesRestored "(string \<times> storedSwundle) list"
  | SwundleAdded string nat "string option list"
  | RestoreLatestSwundlePolling

definition validateSwundleV2 :: "storedState \<Rightarrow> bool" where
  "validateSwundleV2 state =
     (case state of
        StoredNothing \<Rightarrow> False
      | StoredArray groups \<Rightarrow> False
      | StoredObject v \<Rightarrow>
          (case stSwap v of NoSwapCollection \<Rightarrow> False | SwapArray l \<Rightarrow> True | SwapObject m \<Rightarrow> True))"

text \<open>
  \<open>validateSwundleV1\<close>. The list \<open>sendSymbols\<close> grows over the send-groups; the list
  \<open>receiveSymbols\<close> is created empty for every receive entry and never added to.
\<close>

definition validReceive :: "receiveEntry \<Rightarrow> bool" where
  "validReceive receive =
     (let receiveSymbols = ([] :: string list)
      in if reSymbol receive = [] then False
         else if reSymbol receive \<in> set receiveSymbols then False
         else if reUnit receive \<le> 0 then False
         else if reOrder receive = None then False
         else True)"

fun validSends :: "string list \<Rightarrow> sendGroup list \<Rightarrow> bool" where
  "validSends sendSymbols [] = True"
| "validSends sendSymbols (send # rest) =
     (if sgSymbol send = [] then False
      else if sgSymbol send \<in> set sendSymbols then False
      else if list_all validReceive (sgList send)
           then validSends (sendSymbols @ [sgSymbol send]) rest
           else False)"

definition validateSwundleV1 :: "storedState \<Rightarrow> bool" where
  "validateSwundleV1 state =
     (case state of
        StoredNothing \<Rightarrow> False
      | StoredObject v \<Rightarrow> False
      | StoredArray groups \<Rightarrow> validSends [] groups)"

text \<open>
  The V2 loop over the swaps: a transaction without a (truthy) id gets a fresh one, which
  is also stored as the swap's \<open>txId\<close>; every transaction is dispatched. \<open>uuid n\<close> is the
  \<open>n\<close>-th identifier the generator returns.
\<close>

definition falsyId :: "string option \<Rightarrow> bool" where
  "falsyId i = (case i of None \<Rightarrow> True | Some s \<Rightarrow> s = [])"

fun restoreTxs ::
  "(nat \<Rightarrow> string) \<Rightarrow> nat \<Rightarrow> restoredSwap list \<Rightarrow> restoreAction list \<times> restoredSwap list \<times> nat" where
  "restoreTxs uuid n [] = ([], [], n)"
| "restoreTxs uuid n (swp # rest) =
     (case rsTx swp of
        None \<Rightarrow>
          (case restoreTxs uuid n rest of (acts, swps, n') \<Rightarrow> (acts, swp # swps, n'))
      | Some t \<Rightarrow>
          (if falsyId (storedTxId t)
           then (case restoreTxs uuid (n + 1) rest of
                   (acts, swps, n') \<Rightarrow>
                     (TxRestored (t \<lparr> storedTxId := Some (uuid n) \<rparr>) # acts,
                      swp \<lparr> rsTx := Some (t \<lparr> storedTxId := Some (uuid n) \<rparr>),
                            rsTxId := Some (uuid n) \<rparr> # swps,
                      n'))
           else (case restoreTxs uuid n rest of
                   (acts, swps, n') \<Rightarrow> (TxRestored t # acts, swp # swps, n'))))"

text \<open>The V1 expansion: one swap per receive entry of every send-group, in order.\<close>

definition swapOfEntry :: "sendGroup \<Rightarrow> receiveEntry \<Rightarrow> restoredSwap" where
  "swapOfEntry send receive =
     \<lparr> rsId = None, rsTxId = None,
       rsSendWalletId = sgWalletId send, rsSendSymbol = sgSymbol send,
       rsSendUnits = reUnit receive,
       rsReceiveWalletId = reWalletId receive, rsReceiveSymbol = reSymbol receive,
       rsFee = reFee receive, rsOrder = reOrder receive, rsRate = reRate receive,
       rsTx = Some (case reTx receive of
                      None \<Rightarrow> \<lparr> storedTxId = reTxHash receive \<rparr>
                    | Some t \<Rightarrow>
                        (case storedTxId t of
                           None \<Rightarrow> t \<lparr> storedTxId := reTxHash receive \<rparr>
                         | Some i \<Rightarrow> t)) \<rparr>"

definition expandV1 :: "sendGroup list \<Rightarrow> restoredSwap list" where
  "expandV1 groups =
     foldl (\<lambda>swapList send. swapList @ map (swapOfEntry send) (sgList send)) [] groups"

text \<open>
  The first part of \<open>restoreSwundles\<close>: the actions dispatched, the swap list (if any),
  whether a swundle was restored, and the number of identifiers drawn.
\<close>

definition restoreSwaps ::
  "(nat \<Rightarrow> string) \<Rightarrow> storedState
     \<Rightarrow> restoreAction list \<times> restoredSwap list option \<times> bool \<times> nat" where
  "restoreSwaps uuid state =
     (if validateSwundleV2 state then
        (case state of
           StoredObject v \<Rightarrow>
             (let swapList0 = (case stSwap v of
                                 SwapArray l \<Rightarrow> l
                               | SwapObject m \<Rightarrow> map snd m
                               | NoSwapCollection \<Rightarrow> []);
                  txsActs = (case stTx v of None \<Rightarrow> [] | Some txs \<Rightarrow> [TxsRestored txs])
              in case restoreTxs uuid 0 swapList0 of
                   (txActs, swapList, n) \<Rightarrow>
                     (txsActs @ txActs @ [SwapsRestored swapList]
                        @ (case stSwundle v of None \<Rightarrow> [] | Some sw \<Rightarrow> [SwundlesRestored sw]),
                      Some swapList, stSwundle v \<noteq> None, n))
         | _ \<Rightarrow> ([], None, False, 0))
      else if validateSwundleV1 state then
        (case state of
           StoredArray groups \<Rightarrow>
             ([SwapsRestored (expandV1 groups)], Some (expandV1 groups), False, 0)
         | _ \<Rightarrow> ([], None, False, 0))
      else ([], None, False, 0))"

text \<open>
  The creation date of the synthetic swundle:
  \<open>((swapList[0] || {}).order || {}).created || Date.now()\<close>.
\<close>

definition truthyDate :: "nat option \<Rightarrow> nat option" where
  "truthyDate d = (case d of None \<Rightarrow> None | Some n \<Rightarrow> if n \<noteq> 0 then Some n else None)"

definition orderCreated :: "restoredSwap \<Rightarrow> nat option" where
  "orderCreated swp = (case rsOrder swp of None \<Rightarrow> None | Some ord \<Rightarrow> truthyDate (created ord))"

definition syntheticCreatedDate :: "nat \<Rightarrow> restoredSwap list \<Rightarrow> nat" where
  "syntheticCreatedDate now swapList =
     (case swapList of
        [] \<Rightarrow> now
      | first # others \<Rightarrow> (case orderCreated first of None \<Rightarrow> now | Some d \<Rightarrow> d))"

definition restoreSwundles :: "(nat \<Rightarrow> string) \<Rightarrow> nat \<Rightarrow> storedState \<Rightarrow> restoreAction list" where
  "restoreSwundles uuid now state =
     (case restoreSwaps uuid state of
        (acts, Some swapList, False, n) \<Rightarrow>
          acts @ [SwundleAdded (uuid n) (syntheticCreatedDate now swapList) (map rsId swapList),
                  RestoreLatestSwundlePolling]
      | (acts, restored, hasSwundle, n) \<Rightarrow> acts @ [RestoreLatestSwundlePolling])"

text \<open>Reading the dispatched actions: the swaps restored and the swundles added.\<close>

fun restoredSwaps :: "restoreAction list \<Rightarrow> restoredSwap list" where
  "restoredSwaps [] = []"
| "restoredSwaps (SwapsRestored swps # rest) = swps @ restoredSwaps rest"
| "restoredSwaps (a # rest) = restoredSwaps rest"

fun addedCreatedDates :: "restoreAction list \<Rightarrow> nat list" where
  "addedCreatedDates [] = []"
| "addedCreatedDates (SwundleAdded i d ids # rest) = d # addedCreatedDates rest"
| "addedCreatedDates (a # rest) = addedCreatedDates rest"

text \<open>
  The creation date as the specification words it: the earliest order-creation date
  available among the restored swaps, or the current time when there is none.
\<close>

definition earliestCreatedDate :: "nat \<Rightarrow> restoredSwap list \<Rightarrow> nat" where
  "earliestCreatedDate now swapList =
     (case List.map_filter orderCreated swapList of
        [] \<Rightarrow> now
      | d # ds \<Rightarrow> fold min ds d)"

text \<open>
  Sample payloads: a V2 state of two swaps whose orders were created at 200 and at 100,
  and a V1 state of one send-group listing the receive symbol BTC twice.
\<close>

definition sampleRestoredSwap :: "string \<Rightarrow> nat \<Rightarrow> restoredSwap" where
  "sampleRestoredSwap i d =
     \<lparr> rsId = Some i, rsTxId = None, rsSendWalletId = ''w1'', rsSendSymbol = ''ETH'',
       rsSendUnits = 1, rsReceiveWalletId = ''w2'', rsReceiveSymbol = ''BTC'', rsFee = 0,
       rsOrder = Some \<lparr> created = Some d \<rparr>, rsRate = 1, rsTx = None \<rparr>"

definition sampleStateV2 :: storedState where
  "sampleStateV2 =
     StoredObject \<lparr> stSwap = SwapArray [sampleRestoredSwap ''a'' 200, sampleRestoredSwap ''b'' 100],
                    stTx = None, stSwundle = None \<rparr>"

definition sampleEntry :: "string \<Rightarrow> rat \<Rightarrow> receiveEntry" where
  "sampleEntry s u =
     \<lparr> reWalletId = ''w2'', reSymbol = s, reUnit = u, reFee = 0,
       reOrder = Some \<lparr> created = None \<rparr>, reRate = 1, reTxHash = None, reTx = None \<rparr>"

definition sampleStateV1 :: storedState where
  "sampleStateV1 =
     StoredArray [\<lparr> sgWalletId = ''w1'', sgSymbol = ''ETH'',
                    sgList = [sampleEntry ''BTC'' 1, sampleEntry ''BTC'' 2] \<rparr>]"

definition sampleUuid :: "nat \<Rightarrow> string" where
  "sampleUuid n = ''id'' @ replicate n (CHR ''x'')"

section \<open>Properties of the UTXO selector\<close>




















section \<open>Properties of the status derivation\<close>

lemma chain_generic:
  "(if \<not> r then
        (if a then v1 else if b then v2 else if c then v3 else if d then v4
         else if e then v5 else if f then v6 else if \<not> g then v7 else v8)
      else v9) =
   firstMatching [(\<not> r \<and> a, v1), (\<not> r \<and> b, v2), (\<not> r \<and> c, v3), (\<not> r \<and> d, v4),
      (\<not> r \<and> e, v5), (\<not> r \<and> f, v6), (\<not> r \<and> \<not> g, v7), (\<not> r \<and> True, v8)] v9"
  by simp

lemma txStatus_priority:
  "txStatus t =
     firstMatching
       [ (\<not> receipt t \<and> truthy (sendingError t), statusFailed ''send_tx_error'' (sendingError t)),
         (\<not> receipt t \<and> sending t,
          statusPending ''sending'' (Some (StringValue ''sending transaction''))),
         (\<not> receipt t \<and> sent t,
          statusPending ''pending_receipt''
            (Some (StringValue ''waiting for transaction receipt''))),
         (\<not> receipt t \<and> truthy (signingError t), statusFailed ''sign_tx_error'' (signingError t)),
         (\<not> receipt t \<and> signing t,
          statusPending ''signing'' (Some (StringValue ''awaiting signature''))),
         (\<not> receipt t \<and> signed t, statusPending ''signed'' (Some (StringValue ''signed''))),
         (\<not> receipt t \<and> \<not> signingSupported t,
          statusPending ''signing_unsupported'' (Some (StringValue ''wallet cannot sign''))),
         (\<not> receipt t \<and> True, statusPending ''unsigned'' (Some (StringValue ''unsigned''))) ]
       (statusPending ''processing'' (Some (StringValue ''processing swap'')))"
  unfolding txStatus_def by (rule chain_generic)

lemma head_generic:
  "(e \<and> i \<longrightarrow> s) \<Longrightarrow> x = y \<Longrightarrow>
   (if e then if i then v1 else v2 else x) = (if e \<and> s \<and> i then v1 else if e then v2 else y)"
  by auto

lemma getSwapStatus_cascade:
  "getSwapStatus swp = statusByPriority swp"
proof -
  have s: "truthy (error swp) \<and> (case error swp of
               Some (StringValue e) \<Rightarrow> stringIncludes (toLowerCase e) ''insufficient funds''
             | _ \<Rightarrow> False) \<longrightarrow> isString (error swp)"
    by (simp add: isString_def split: option.splits errorValue.splits)
  show ?thesis
  proof (cases "order swp")
    case None
    have o: "orderErrorOf swp = None" "\<And>x. orderStatusIs swp x = False"
      by (simp_all add: orderErrorOf_def orderStatusIs_def None)
    show ?thesis
      unfolding getSwapStatus_def statusByPriority_def
      apply (simp only: None o option.case truthy.simps)
      apply (simp only: firstMatching.simps simp_thms if_True if_False)
      apply (rule head_generic [OF s refl])
      done
  next
    case (Some ord)
    have o: "orderErrorOf swp = orderError ord" "\<And>x. orderStatusIs swp x = (status ord = x)"
      by (simp_all add: orderErrorOf_def orderStatusIs_def Some)
    have n: "(Some ord = None) = False" by simp
    show ?thesis
    proof (cases "rate swp")
      case None
      show ?thesis
        unfolding getSwapStatus_def statusByPriority_def
        apply (simp only: Some None o n option.case)
        apply (simp only: firstMatching.simps simp_thms if_True if_False)
        apply (rule head_generic [OF s refl])
        done
    next
      case someRate: (Some r)
      have nr: "(Some r = None) = False" by simp
      show ?thesis
      proof (cases "tx swp")
        case None
        show ?thesis
          unfolding getSwapStatus_def statusByPriority_def
          apply (simp only: Some someRate None o n nr option.case)
          apply (simp only: firstMatching.simps simp_thms if_True if_False)
          apply (rule head_generic [OF s refl])
          done
      next
        case someTx: (Some t)
        have nt: "(Some t = None) = False" by simp
        have h: "\<And>f. txHas swp f = (\<not> receipt t \<and> f t)" "\<And>f. txField swp f = f t"
          by (simp_all add: txHas_def txField_def someTx)
        show ?thesis
          unfolding getSwapStatus_def statusByPriority_def
          apply (simp only: Some someRate someTx o n nr nt h option.case txStatus_priority)
          apply (simp only: firstMatching.simps simp_thms if_True if_False)
          apply (rule head_generic [OF s refl])
          done
      qed
    qed
  qed
qed

lemma firstMatching_map:
  "f (firstMatching xs d) = firstMatching (map (\<lambda>(c, v). (c, f v)) xs) (f d)"
  by (induction xs d rule: firstMatching.induct) simp_all

lemma status_codes:
  "code (statusFailed dc d) = ''failed''" "detailsCode (statusFailed dc d) = dc"
  "code (statusPending dc d) = ''pending''" "detailsCode (statusPending dc d) = dc"
  "code (statusComplete dc d) = ''complete''" "detailsCode (statusComplete dc d) = dc"
  by (simp_all add: statusFailed_def statusPending_def statusComplete_def createStatus_def)

lemma getSwapStatus_reads:
  assumes "error swp' = error swp" and "errorType swp' = errorType swp"
    and "rate swp' = rate swp" and "order swp' = order swp" and "tx swp' = tx swp"
  shows "getSwapStatus swp' = getSwapStatus swp"
  unfolding getSwapStatus_def getSwapFriendlyError_def by (simp only: assms)

text \<open>
  C5. The code and the details code of \<open>getSwapStatus\<close> are those of the first condition
  that holds in the priority order: the swap's error (\<open>failed\<close>: \<open>insufficient_funds\<close>,
  \<open>error\<close>), then the order's terminal conditions (\<open>order_error\<close>, \<open>order_failed\<close>,
  \<open>order_cancelled\<close>, \<open>order_complete\<close>), then the pending sub-states (\<open>creating_order\<close>
  when there is no order, \<open>fetching_rate\<close> when there is no rate, \<open>creating_tx\<close> when there
  is no transaction, the sending and signing chain, and \<open>processing\<close> last). The status
  is a function of the swap's fields: two swaps that agree on \<open>error\<close>, \<open>errorType\<close>,
  \<open>rate\<close>, \<open>order\<close> and \<open>tx\<close> have the same status.
\<close>

theorem getSwapStatus_codes_by_priority:
  "(code (getSwapStatus swp), detailsCode (getSwapStatus swp)) = claimedStatusCodes swp
   \<and> (error swp' = error swp \<and> errorType swp' = errorType swp \<and> rate swp' = rate swp \<and>
      order swp' = order swp \<and> tx swp' = tx swp \<longrightarrow>
        getSwapStatus swp' = getSwapStatus swp)"
proof -
  have "(code (getSwapStatus swp), detailsCode (getSwapStatus swp))
          = (\<lambda>st. (code st, detailsCode st)) (statusByPriority swp)"
    by (simp only: getSwapStatus_cascade)
  also have "\<dots> = claimedStatusCodes swp"
    unfolding statusByPriority_def claimedStatusCodes_def
    by (subst firstMatching_map [where f = "\<lambda>st. (code st, detailsCode st)"])
       (simp only: list.map prod.case status_codes)
  finally have codes: "(code (getSwapStatus swp), detailsCode (getSwapStatus swp))
                 = claimedStatusCodes swp" .
  from codes getSwapStatus_reads [of swp' swp] show ?thesis by blast
qed

theorem getSwapStatus_codes_witness:
  "(code (getSwapStatus (sampleSwap ''a'' ''w1'' ''ETH'' 6)),
    detailsCode (getSwapStatus (sampleSwap ''a'' ''w1'' ''ETH'' 6))) = (''pending'', ''unsigned'')
   \<and> getSwapStatus ((sampleSwap ''a'' ''w1'' ''ETH'' 6) \<lparr> swapId := ''z'', sendUnits := 99 \<rparr>)
       = getSwapStatus (sampleSwap ''a'' ''w1'' ''ETH'' 6)
   \<and> (code (getSwapStatus ((sampleSwap ''a'' ''w1'' ''ETH'' 6) \<lparr> order := None \<rparr>)),
      detailsCode (getSwapStatus ((sampleSwap ''a'' ''w1'' ''ETH'' 6) \<lparr> order := None \<rparr>)))
       = (''pending'', ''creating_order'')
   \<and> (code (getSwapStatus ((sampleSwap ''a'' ''w1'' ''ETH'' 6)
                \<lparr> error := Some (StringValue ''Insufficient funds for gas'') \<rparr>)),
      detailsCode (getSwapStatus ((sampleSwap ''a'' ''w1'' ''ETH'' 6)
                \<lparr> error := Some (StringValue ''Insufficient funds for gas'') \<rparr>)))
       = (''failed'', ''insufficient_funds'')"
proof -
  have c1: "claimedStatusCodes (sampleSwap ''a'' ''w1'' ''ETH'' 6) = (''pending'', ''unsigned'')"
    by code_simp
  have c2: "claimedStatusCodes ((sampleSwap ''a'' ''w1'' ''ETH'' 6) \<lparr> order := None \<rparr>)
              = (''pending'', ''creating_order'')"
    by code_simp
  have c3: "claimedStatusCodes ((sampleSwap ''a'' ''w1'' ''ETH'' 6)
                \<lparr> error := Some (StringValue ''Insufficient funds for gas'') \<rparr>)
              = (''failed'', ''insufficient_funds'')"
    by code_simp
  define s where "s = sampleSwap ''a'' ''w1'' ''ETH'' 6"
  have same: "error (s \<lparr> swapId := ''z'', sendUnits := 99 \<rparr>) = error s \<and>
      errorType (s \<lparr> swapId := ''z'', sendUnits := 99 \<rparr>) = errorType s \<and>
      rate (s \<lparr> swapId := ''z'', sendUnits := 99 \<rparr>) = rate s \<and>
      order (s \<lparr> swapId := ''z'', sendUnits := 99 \<rparr>) = order s \<and>
      tx (s \<lparr> swapId := ''z'', sendUnits := 99 \<rparr>) = tx s"
    by simp
  have a: "(code (getSwapStatus s), detailsCode (getSwapStatus s)) = (''pending'', ''unsigned'')"
    using getSwapStatus_codes_by_priority [of s s] c1 unfolding s_def by (simp only:)
  have b: "getSwapStatus (s \<lparr> swapId := ''z'', sendUnits := 99 \<rparr>) = getSwapStatus s"
    using getSwapStatus_codes_by_priority [of s "s \<lparr> swapId := ''z'', sendUnits := 99 \<rparr>"] same
    by blast
  have c: "(code (getSwapStatus (s \<lparr> order := None \<rparr>)),
            detailsCode (getSwapStatus (s \<lparr> order := None \<rparr>))) = (''pending'', ''creating_order'')"
    using getSwapStatus_codes_by_priority [of "s \<lparr> order := None \<rparr>" s] c2
    unfolding s_def by (simp only:)
  have d: "(code (getSwapStatus (s \<lparr> error := Some (StringValue ''Insufficient funds for gas'') \<rparr>)),
            detailsCode (getSwapStatus (s \<lparr> error := Some (StringValue ''Insufficient funds for gas'') \<rparr>)))
           = (''failed'', ''insufficient_funds'')"
    using getSwapStatus_codes_by_priority
            [of "s \<lparr> error := Some (StringValue ''Insufficient funds for gas'') \<rparr>" s] c3
    unfolding s_def by (simp only:)
  from a b c d show ?thesis unfolding s_def by blast
qed

section \<open>Properties of the balance check\<close>

lemma map_of_mergeKey:
  "map_of (mergeKey k f d xs) k' =
     (if k' = k then Some (f (case map_of xs k of None \<Rightarrow> d | Some v \<Rightarrow> v)) else map_of xs k')"
  by (induction xs) auto

lemma keys_mergeKey: "fst ` set (mergeKey k f d xs) = insert k (fst ` set xs)"
proof (induction xs)
  case Nil
  show ?case by simp
next
  case (Cons x xs)
  obtain k' v where x: "x = (k', v)" by (cases x)
  show ?case
  proof (cases "k' = k")
    case True
    then show ?thesis unfolding x by auto
  next
    case False
    then have "fst ` set (mergeKey k f d (x # xs)) = insert k' (fst ` set (mergeKey k f d xs))"
      unfolding x by simp
    also have "\<dots> = insert k' (insert k (fst ` set xs))" by (simp only: Cons.IH)
    also have "\<dots> = insert k (fst ` set (x # xs))" unfolding x by auto
    finally show ?thesis .
  qed
qed

lemma distinct_mergeKey:
  "distinct (map fst xs) \<Longrightarrow> distinct (map fst (mergeKey k f d xs))"
proof (induction xs)
  case Nil
  then show ?case by simp
next
  case (Cons x xs)
  obtain k' v where x: "x = (k', v)" by (cases x)
  show ?case
  proof (cases "k' = k")
    case True
    with Cons.prems x show ?thesis by simp
  next
    case False
    from Cons.prems x have "k' \<notin> fst ` set xs" and d: "distinct (map fst xs)" by auto
    with False have "k' \<notin> fst ` set (mergeKey k f d xs)" by (simp add: keys_mergeKey)
    with False x Cons.IH [OF d] show ?thesis by simp
  qed
qed

lemma set_mergeKey:
  "(k', v') \<in> set (mergeKey k f d xs) \<Longrightarrow>
     (k', v') \<in> set xs \<or> (k' = k \<and> v' = f (case map_of xs k of None \<Rightarrow> d | Some v \<Rightarrow> v))"
  by (induction xs) (auto split: if_splits)

lemma wellKeyed_mergeKey2:
  assumes "wellKeyed T"
  shows "wellKeyed (mergeKey w (mergeKey s g e0) [] T)"
proof -
  from assms have d: "distinct (map fst T)" and inner: "\<And>w' st. (w', st) \<in> set T \<Longrightarrow> distinct (map fst st)"
    by (auto simp: wellKeyed_def)
  have "distinct (map fst st')" if "(w', st') \<in> set (mergeKey w (mergeKey s g e0) [] T)" for w' st'
  proof -
    from set_mergeKey [OF that] show ?thesis
    proof
      assume "(w', st') \<in> set T" then show ?thesis by (rule inner)
    next
      assume a: "w' = w \<and> st' = mergeKey s g e0 (case map_of T w of None \<Rightarrow> [] | Some v \<Rightarrow> v)"
      show ?thesis
      proof (cases "map_of T w")
        case None
        with a show ?thesis by simp
      next
        case (Some st)
        then have "(w, st) \<in> set T" by (rule map_of_SomeD)
        then have "distinct (map fst st)" by (rule inner)
        with a Some show ?thesis by (simp add: distinct_mergeKey)
      qed
    qed
  qed
  with distinct_mergeKey [OF d] show ?thesis by (auto simp: wellKeyed_def)
qed

lemma entryAt_mergeKey2:
  "entryAt (mergeKey w (mergeKey s g e0) [] T) w' s' =
     (if w' = w \<and> s' = s then Some (g (case entryAt T w s of None \<Rightarrow> e0 | Some e \<Rightarrow> e))
      else entryAt T w' s')"
  by (auto simp: entryAt_def map_of_mergeKey split: option.splits)

lemma set_objectEntries: "set (objectEntries xs) = set xs"
  by (auto simp: objectEntries_def)

lemma exceedsBalance_finite: "exceedsBalance (Num t) (Num b) = (b < t)"
  by (simp add: exceedsBalance_def)

text \<open>Merging a present amount (fee amount) never throws and adds it to the pair's total.\<close>

lemma mergeSumAmount_present:
  "\<exists>T'. mergeSumAmount errorsOn T w s (Some a) = Inr T' \<and>
        (wellKeyed T \<longrightarrow> wellKeyed T') \<and>
        (\<forall>w' s'. valueAt T' w' s' = valueAt T w' s' + (if w = w' \<and> s = s' then a else 0)) \<and>
        (\<forall>w' s'. hasPair T' w' s' = (hasPair T w' s' \<or> (w', s') = (w, s)))"
proof -
  define v where "v = (case (case entryAt T w s of None \<Rightarrow> None | Some e \<Rightarrow> totalAmount e) of
                         None \<Rightarrow> Some a | Some x \<Rightarrow> Some (x + a))"
  define T' where "T' = mergeKey w
                 (mergeKey s (\<lambda>e. e \<lparr> totalAmount := v \<rparr>)
                    \<lparr> totalAmount = None, totalFee = None \<rparr>)
                 [] T"
  have r: "mergeSumAmount errorsOn T w s (Some a) = Inr T'"
    by (simp add: mergeSumAmount_def mergeLeaf_def T'_def v_def split: option.splits)
  have wk: "wellKeyed T \<longrightarrow> wellKeyed T'"
    by (simp add: T'_def wellKeyed_mergeKey2)
  have val: "valueAt T' w' s' = valueAt T w' s' + (if w = w' \<and> s = s' then a else 0)" for w' s'
    by (auto simp: valueAt_def T'_def entryAt_mergeKey2 entryValue_def v_def ac_simps
          split: option.splits)
  have hp: "hasPair T' w' s' = (hasPair T w' s' \<or> (w', s') = (w, s))" for w' s'
    by (auto simp: hasPair_def T'_def entryAt_mergeKey2)
  from r wk val hp show ?thesis by blast
qed

lemma mergeSumFee_present:
  "\<exists>T'. mergeSumFee errorsOn T w s (Some a) = Inr T' \<and>
        (wellKeyed T \<longrightarrow> wellKeyed T') \<and>
        (\<forall>w' s'. valueAt T' w' s' = valueAt T w' s' + (if w = w' \<and> s = s' then a else 0)) \<and>
        (\<forall>w' s'. hasPair T' w' s' = (hasPair T w' s' \<or> (w', s') = (w, s)))"
proof -
  define v where "v = (case (case entryAt T w s of None \<Rightarrow> None | Some e \<Rightarrow> totalFee e) of
                         None \<Rightarrow> Some a | Some x \<Rightarrow> Some (x + a))"
  define T' where "T' = mergeKey w
                 (mergeKey s (\<lambda>e. e \<lparr> totalFee := v \<rparr>)
                    \<lparr> totalAmount = None, totalFee = None \<rparr>)
                 [] T"
  have r: "mergeSumFee errorsOn T w s (Some a) = Inr T'"
    by (simp add: mergeSumFee_def mergeLeaf_def T'_def v_def split: option.splits)
  have wk: "wellKeyed T \<longrightarrow> wellKeyed T'"
    by (simp add: T'_def wellKeyed_mergeKey2)
  have val: "valueAt T' w' s' = valueAt T w' s' + (if w = w' \<and> s = s' then a else 0)" for w' s'
    by (auto simp: valueAt_def T'_def entryAt_mergeKey2 entryValue_def v_def ac_simps
          split: option.splits)
  have hp: "hasPair T' w' s' = (hasPair T w' s' \<or> (w', s') = (w, s))" for w' s'
    by (auto simp: hasPair_def T'_def entryAt_mergeKey2)
  from r wk val hp show ?thesis by blast
qed

lemma sumSendTotals_result:
  assumes "\<forall>swp \<in> set swps. \<not> truthy (error swp) \<longrightarrow>
             (\<exists>t a. tx swp = Some t \<and> txAmount t = Some a)"
    and "wellKeyed T"
  shows "\<exists>T'. sumSendTotals errorsOn swps T = Inr T' \<and> wellKeyed T' \<and>
           (\<forall>w s. valueAt T' w s = valueAt T w s + sendTotal swps w s) \<and>
           (\<forall>w s. hasPair T' w s = (hasPair T w s \<or> (w, s) \<in> set (sendPairs swps)))"
  using assms
proof (induction swps arbitrary: T)
  case Nil
  then show ?case by (simp add: sendTotal_def sendPairs_def)
next
  case (Cons swp swps)
  from Cons.prems(1) have rest: "\<forall>swp \<in> set swps. \<not> truthy (error swp) \<longrightarrow>
             (\<exists>t a. tx swp = Some t \<and> txAmount t = Some a)"
    by simp
  show ?case
  proof (cases "truthy (error swp)")
    case True
    from Cons.IH [OF rest Cons.prems(2)] True show ?thesis
      by (simp add: sendTotal_def sendPairs_def sendShare_def swapPairs_def)
  next
    case False
    with Cons.prems(1) obtain t a where t: "tx swp = Some t" and a: "txAmount t = Some a"
      by auto
    from mergeSumAmount_present [of errorsOn T "sendWalletId swp" "sendSymbol swp" a]
    obtain T1 where
      m1: "mergeSumAmount errorsOn T (sendWalletId swp) (sendSymbol swp) (Some a) = Inr T1"
      and wk1: "wellKeyed T \<longrightarrow> wellKeyed T1"
      and v1: "\<And>w' s'. valueAt T1 w' s' = valueAt T w' s'
                 + (if sendWalletId swp = w' \<and> sendSymbol swp = s' then a else 0)"
      and h1: "\<And>w' s'. hasPair T1 w' s'
                 = (hasPair T w' s' \<or> (w', s') = (sendWalletId swp, sendSymbol swp))"
      by blast
    have "\<exists>T2. sumSendTotals errorsOn (swp # swps) T = sumSendTotals errorsOn swps T2 \<and>
            wellKeyed T2 \<and>
            (\<forall>w s. valueAt T2 w s = valueAt T w s + sendShare w s swp) \<and>
            (\<forall>w s. hasPair T2 w s = (hasPair T w s \<or> (w, s) \<in> set (swapPairs swp)))"
    proof (cases "feeAmount t")
      case None
      have "sumSendTotals errorsOn (swp # swps) T = sumSendTotals errorsOn swps T1"
        using False t a m1 None by simp
      moreover have "wellKeyed T1" using wk1 Cons.prems(2) by simp
      moreover have "\<forall>w s. valueAt T1 w s = valueAt T w s + sendShare w s swp"
        using False t a None by (simp add: v1 sendShare_def)
      moreover have "\<forall>w s. hasPair T1 w s = (hasPair T w s \<or> (w, s) \<in> set (swapPairs swp))"
        using False t None by (simp add: h1 swapPairs_def)
      ultimately show ?thesis by blast
    next
      case (Some f)
      from mergeSumFee_present [of errorsOn T1 "sendWalletId swp" "feeKey t" f]
      obtain T2 where
        m2: "mergeSumFee errorsOn T1 (sendWalletId swp) (feeKey t) (Some f) = Inr T2"
        and wk2: "wellKeyed T1 \<longrightarrow> wellKeyed T2"
        and v2: "\<And>w' s'. valueAt T2 w' s' = valueAt T1 w' s'
                   + (if sendWalletId swp = w' \<and> feeKey t = s' then f else 0)"
        and h2: "\<And>w' s'. hasPair T2 w' s'
                   = (hasPair T1 w' s' \<or> (w', s') = (sendWalletId swp, feeKey t))"
        by blast
      have "sumSendTotals errorsOn (swp # swps) T = sumSendTotals errorsOn swps T2"
        using False t a m1 m2 Some by simp
      moreover have "wellKeyed T2" using wk1 wk2 Cons.prems(2) by simp
      moreover have "\<forall>w s. valueAt T2 w s = valueAt T w s + sendShare w s swp"
        using False t a Some by (auto simp: v1 v2 sendShare_def ac_simps)
      moreover have "\<forall>w s. hasPair T2 w s = (hasPair T w s \<or> (w, s) \<in> set (swapPairs swp))"
        using False t Some by (auto simp: h1 h2 swapPairs_def)
      ultimately show ?thesis by blast
    qed
    then obtain T2 where
      step: "sumSendTotals errorsOn (swp # swps) T = sumSendTotals errorsOn swps T2"
      and wk: "wellKeyed T2"
      and v: "\<And>w s. valueAt T2 w s = valueAt T w s + sendShare w s swp"
      and h: "\<And>w s. hasPair T2 w s = (hasPair T w s \<or> (w, s) \<in> set (swapPairs swp))"
      by blast
    from Cons.IH [OF rest wk] obtain T' where
      r: "sumSendTotals errorsOn swps T2 = Inr T'" and wk': "wellKeyed T'"
      and v': "\<forall>w s. valueAt T' w s = valueAt T2 w s + sendTotal swps w s"
      and h': "\<forall>w s. hasPair T' w s = (hasPair T2 w s \<or> (w, s) \<in> set (sendPairs swps))"
      by blast
    have "\<forall>w s. valueAt T' w s = valueAt T w s + sendTotal (swp # swps) w s"
      using v v' by (simp add: sendTotal_def ac_simps)
    moreover have "\<forall>w s. hasPair T' w s
        = (hasPair T w s \<or> (w, s) \<in> set (sendPairs (swp # swps)))"
      using h h' by (simp add: sendPairs_def disj_ac)
    ultimately show ?thesis using step r wk' by simp
  qed
qed

lemma checkSymbols_step:
  "checkSymbols W w ((s, e) # rest) =
     (if exceeds W w s e then Some (insufficientBalance s (labelOrId W w))
      else checkSymbols W w rest)"
  by (simp add: exceeds_def exceedsBalance_def entryValue_def Let_def)

lemma checkSymbols_None:
  "(checkSymbols W w st = None) = (\<forall>(s, e) \<in> set st. \<not> exceeds W w s e)"
proof (induction st)
  case Nil
  show ?case by simp
next
  case (Cons p st)
  obtain s e where p: "p = (s, e)" by (cases p)
  show ?case unfolding p checkSymbols_step using Cons.IH by simp
qed

lemma checkSymbols_Some:
  "checkSymbols W w st = Some err \<Longrightarrow>
     \<exists>s e. (s, e) \<in> set st \<and> exceeds W w s e \<and> err = insufficientBalance s (labelOrId W w)"
proof (induction st)
  case Nil
  then show ?case by simp
next
  case (Cons p st)
  obtain s e where p: "p = (s, e)" by (cases p)
  show ?case
  proof (cases "exceeds W w s e")
    case True
    with Cons.prems have "err = insufficientBalance s (labelOrId W w)"
      unfolding p checkSymbols_step by simp
    with True show ?thesis unfolding p by (intro exI [of _ s] exI [of _ e]) simp
  next
    case False
    with Cons.prems have "checkSymbols W w st = Some err"
      unfolding p checkSymbols_step by simp
    from Cons.IH [OF this] obtain s' e' where
      "(s', e') \<in> set st" "exceeds W w s' e'" "err = insufficientBalance s' (labelOrId W w)"
      by blast
    then show ?thesis by (intro exI [of _ s'] exI [of _ e']) simp
  qed
qed

lemma checkWallets_None:
  "(checkWallets W T = None) =
     (\<forall>(w, st) \<in> set T. \<forall>(s, e) \<in> set st. \<not> exceeds W w s e)"
proof (induction T)
  case Nil
  show ?case by simp
next
  case (Cons p T)
  obtain w st where p: "p = (w, st)" by (cases p)
  show ?case
  proof (cases "checkSymbols W w (objectEntries st)")
    case None
    with Cons.IH show ?thesis unfolding p
      using checkSymbols_None [of W w "objectEntries st"] by (simp add: set_objectEntries)
  next
    case (Some e')
    with checkSymbols_None [of W w "objectEntries st"] show ?thesis unfolding p
      by (simp add: set_objectEntries)
  qed
qed

lemma checkWallets_Some:
  "checkWallets W T = Some err \<Longrightarrow>
     \<exists>w st s e. (w, st) \<in> set T \<and> (s, e) \<in> set st \<and> exceeds W w s e \<and>
           err = insufficientBalance s (labelOrId W w)"
proof (induction T)
  case Nil
  then show ?case by simp
next
  case (Cons p T)
  obtain w st where p: "p = (w, st)" by (cases p)
  show ?case
  proof (cases "checkSymbols W w (objectEntries st)")
    case None
    with Cons.prems have "checkWallets W T = Some err" unfolding p by simp
    from Cons.IH [OF this] obtain w' st' s' e' where
      "(w', st') \<in> set T" "(s', e') \<in> set st'" "exceeds W w' s' e'"
      "err = insufficientBalance s' (labelOrId W w')"
      by blast
    then show ?thesis
      by (intro exI [of _ w'] exI [of _ st'] exI [of _ s'] exI [of _ e']) simp
  next
    case (Some e')
    with Cons.prems have "e' = err" unfolding p by simp
    with checkSymbols_Some [OF Some] obtain s e where
      "(s, e) \<in> set st" "exceeds W w s e" "err = insufficientBalance s (labelOrId W w)"
      by (auto simp: set_objectEntries)
    then show ?thesis unfolding p
      by (intro exI [of _ w] exI [of _ st] exI [of _ s] exI [of _ e]) simp
  qed
qed

lemma wellKeyed_entry:
  assumes "wellKeyed T"
  shows "(\<exists>st. (w, st) \<in> set T \<and> (s, e) \<in> set st) = (entryAt T w s = Some e)"
proof
  assume "\<exists>st. (w, st) \<in> set T \<and> (s, e) \<in> set st"
  then obtain st where st: "(w, st) \<in> set T" "(s, e) \<in> set st" by blast
  from assms have d: "distinct (map fst T)" by (simp add: wellKeyed_def)
  from assms st(1) have d': "distinct (map fst st)" by (auto simp: wellKeyed_def)
  from d st(1) have "map_of T w = Some st" by simp
  moreover from d' st(2) have "map_of st s = Some e" by simp
  ultimately show "entryAt T w s = Some e" by (simp add: entryAt_def)
next
  assume "entryAt T w s = Some e"
  then obtain st where "map_of T w = Some st" "map_of st s = Some e"
    by (auto simp: entryAt_def split: option.splits)
  then have "(w, st) \<in> set T \<and> (s, e) \<in> set st" by (auto dest: map_of_SomeD)
  then show "\<exists>st. (w, st) \<in> set T \<and> (s, e) \<in> set st" ..
qed

lemma exceeds_entry:
  "entryAt T w s = Some e \<Longrightarrow>
     exceeds W w s e = exceedsBalance (valueAt T w s) (knownBalance W w s)"
  by (simp add: exceeds_def valueAt_def)

text \<open>
  C1 (amended). For every swundle in which each swap without error carries a draft
  transaction with an amount, the balance check compares, for each (wallet, asset) pair
  that occurs, the sum over all error-free swaps of the send amounts and fee amounts
  falling on that pair with the wallet's known balance of the asset (0 when unknown). If
  some pair's total exceeds the balance, the check throws the error naming such a pair's
  asset and wallet label (the wallet id when there is no label); otherwise it returns the
  swundle. For finite values a total exceeds a balance when it is greater.
\<close>

theorem checkSufficientBalances_sums_across_swaps:
  assumes "\<forall>swp \<in> set (swaps swndl). \<not> truthy (error swp) \<longrightarrow>
             (\<exists>t a. tx swp = Some t \<and> txAmount t = Some a)"
  shows "(if \<exists>(w, s) \<in> set (sendPairs (swaps swndl)).
              exceedsBalance (sendTotal (swaps swndl) w s) (knownBalance wallets w s)
          then \<exists>(w, s) \<in> set (sendPairs (swaps swndl)).
                 exceedsBalance (sendTotal (swaps swndl) w s) (knownBalance wallets w s) \<and>
                 checkSufficientBalances errorsOn wallets swndl
                   = Inl (insufficientBalance s (labelOrId wallets w))
          else checkSufficientBalances errorsOn wallets swndl = Inr swndl)
         \<and> (\<forall>t b. exceedsBalance (Num t) (Num b) = (b < t))"
proof -
  have wk0: "wellKeyed []" by (simp add: wellKeyed_def)
  from sumSendTotals_result [OF assms wk0, of errorsOn] obtain T where
    sum: "sumSendTotals errorsOn (swaps swndl) [] = Inr T" and wk: "wellKeyed T"
    and v: "\<And>w s. valueAt T w s = sendTotal (swaps swndl) w s"
    and h: "\<And>w s. hasPair T w s = ((w, s) \<in> set (sendPairs (swaps swndl)))"
    by (auto simp: valueAt_def hasPair_def entryAt_def)
  have entry: "(w, s) \<in> set (sendPairs (swaps swndl)) \<and>
               exceeds wallets w s e
                 = exceedsBalance (sendTotal (swaps swndl) w s) (knownBalance wallets w s)"
    if "(w, st) \<in> set T" "(s, e) \<in> set st" for w st s e
  proof -
    from that wellKeyed_entry [OF wk, of w s e] have e: "entryAt T w s = Some e" by blast
    then have "hasPair T w s" by (simp add: hasPair_def)
    with exceeds_entry [OF e, of wallets] show ?thesis by (simp add: h v)
  qed
  have main: "if \<exists>(w, s) \<in> set (sendPairs (swaps swndl)).
              exceedsBalance (sendTotal (swaps swndl) w s) (knownBalance wallets w s)
          then \<exists>(w, s) \<in> set (sendPairs (swaps swndl)).
                 exceedsBalance (sendTotal (swaps swndl) w s) (knownBalance wallets w s) \<and>
                 checkSufficientBalances errorsOn wallets swndl
                   = Inl (insufficientBalance s (labelOrId wallets w))
          else checkSufficientBalances errorsOn wallets swndl = Inr swndl"
  proof (cases "checkWallets wallets (objectEntries T)")
    case None
    have "\<not> (\<exists>(w, s) \<in> set (sendPairs (swaps swndl)).
              exceedsBalance (sendTotal (swaps swndl) w s) (knownBalance wallets w s))"
    proof
      assume "\<exists>(w, s) \<in> set (sendPairs (swaps swndl)).
              exceedsBalance (sendTotal (swaps swndl) w s) (knownBalance wallets w s)"
      then obtain w s where p: "(w, s) \<in> set (sendPairs (swaps swndl))"
        and lt: "exceedsBalance (sendTotal (swaps swndl) w s) (knownBalance wallets w s)"
        by blast
      from p have "hasPair T w s" by (simp add: h)
      then obtain e where e: "entryAt T w s = Some e" by (auto simp: hasPair_def)
      with wellKeyed_entry [OF wk, of w s e] obtain st where
        st: "(w, st) \<in> set T" "(s, e) \<in> set st" by blast
      from exceeds_entry [OF e, of wallets] lt have "exceeds wallets w s e" by (simp add: v)
      moreover from None st have "\<not> exceeds wallets w s e"
        unfolding checkWallets_None set_objectEntries by blast
      ultimately show False by simp
    qed
    moreover have "checkSufficientBalances errorsOn wallets swndl = Inr swndl"
      by (simp add: checkSufficientBalances_def sum None)
    ultimately show ?thesis by simp
  next
    case (Some err)
    from checkWallets_Some [OF Some] obtain w st s e where
      st: "(w, st) \<in> set T" "(s, e) \<in> set st" and ex: "exceeds wallets w s e"
      and err: "err = insufficientBalance s (labelOrId wallets w)"
      unfolding set_objectEntries by blast
    from entry [OF st] ex have p: "(w, s) \<in> set (sendPairs (swaps swndl))"
      and lt: "exceedsBalance (sendTotal (swaps swndl) w s) (knownBalance wallets w s)"
      by simp_all
    have r: "checkSufficientBalances errorsOn wallets swndl
               = Inl (insufficientBalance s (labelOrId wallets w))"
      by (simp add: checkSufficientBalances_def sum Some err)
    from p lt r have "\<exists>(w, s) \<in> set (sendPairs (swaps swndl)).
                exceedsBalance (sendTotal (swaps swndl) w s) (knownBalance wallets w s) \<and>
                checkSufficientBalances errorsOn wallets swndl
                  = Inl (insufficientBalance s (labelOrId wallets w))"
      by blast
    moreover from p lt have "\<exists>(w, s) \<in> set (sendPairs (swaps swndl)).
              exceedsBalance (sendTotal (swaps swndl) w s) (knownBalance wallets w s)"
      by blast
    ultimately show ?thesis by simp
  qed
  from main exceedsBalance_finite show ?thesis by blast
qed

lemma sample_sendPairs:
  "sendPairs (swaps sampleSwundle) = [(''w1'', ''ETH''), (''w1'', ''ETH'')]"
  by (simp add: sendPairs_def swapPairs_def sampleSwundle_def sampleSwap_def sampleTx_def)

lemma sample_sendTotal: "sendTotal (swaps sampleSwundle) ''w1'' ''ETH'' = Num 12"
  by (simp add: sendTotal_def sendShare_def sampleSwundle_def sampleSwap_def sampleTx_def
        zero_bigNumber_def)

lemma sample_balance: "knownBalance sampleWallets ''w1'' ''ETH'' = Num 10"
  by (simp add: knownBalance_def sampleWallets_def)

lemma sample_check_fails:
  "checkSufficientBalances True sampleWallets sampleSwundle
     = Inl (ErrorObject ''Insufficient ETH balance in wallet Main for transaction fees.'')"
  by code_simp

lemma initSwundle_balance_failure:
  assumes "promiseAll (\<lambda>swp. case updateMarketInfo env swp of
                       Inl e \<Rightarrow> Inl e
                     | Inr swp1 \<Rightarrow> checkSufficientDeposit env swp1) (swaps swndl) = Inr swps"
    and "checkSufficientBalances (bigNumberErrors env) (getAllWallets env)
           (swndl \<lparr> swaps := swps \<rparr>) = Inl e"
  shows "initSwundle env swndl
           = ([InitStarted (swundleId swndl), InitFailed (swundleId swndl) (messageOrError e)],
              Resolved None)"
  by (simp add: initSwundle_def initSteps_def assms)

theorem checkSufficientBalances_witness:
  "sendTotal [sampleSwap ''a'' ''w1'' ''ETH'' 6] ''w1'' ''ETH'' = Num 6
   \<and> sendTotal [sampleSwap ''b'' ''w1'' ''ETH'' 6] ''w1'' ''ETH'' = Num 6
   \<and> knownBalance sampleWallets ''w1'' ''ETH'' = Num 10
   \<and> sendTotal (swaps sampleSwundle) ''w1'' ''ETH'' = Num 12
   \<and> checkSufficientBalances True sampleWallets sampleSwundle
       = Inl (ErrorObject ''Insufficient ETH balance in wallet Main for transaction fees.'')
   \<and> initSwundle sampleEnv sampleSwundle
       = ([InitStarted ''s1'',
           InitFailed ''s1''
             (StringValue ''Insufficient ETH balance in wallet Main for transaction fees.'')],
          Resolved None)"
proof -
  have hyp: "\<forall>swp \<in> set (swaps sampleSwundle). \<not> truthy (error swp) \<longrightarrow>
               (\<exists>t a. tx swp = Some t \<and> txAmount t = Some a)"
    by (simp add: sampleSwundle_def sampleSwap_def sampleTx_def)
  have chk: "checkSufficientBalances True sampleWallets sampleSwundle
       = Inl (ErrorObject ''Insufficient ETH balance in wallet Main for transaction fees.'')"
    using checkSufficientBalances_sums_across_swaps [OF hyp, of sampleWallets True]
    by (simp add: sample_sendPairs sample_sendTotal sample_balance insufficientBalance_def
          labelOrId_def sampleWallets_def exceedsBalance_def)
  have single: "sendTotal [sampleSwap ''a'' ''w1'' ''ETH'' 6] ''w1'' ''ETH'' = Num 6"
    "sendTotal [sampleSwap ''b'' ''w1'' ''ETH'' 6] ''w1'' ''ETH'' = Num 6"
    by (simp_all add: sendTotal_def sendShare_def sampleSwap_def sampleTx_def
          zero_bigNumber_def)
  have same: "sampleSwundle \<lparr> swaps := swaps sampleSwundle \<rparr> = sampleSwundle" by simp
  have pa: "promiseAll (\<lambda>swp. case updateMarketInfo sampleEnv swp of
                       Inl e \<Rightarrow> Inl e
                     | Inr swp1 \<Rightarrow> checkSufficientDeposit sampleEnv swp1) (swaps sampleSwundle)
            = Inr (swaps sampleSwundle)"
    by (simp add: sampleEnv_def sampleSwundle_def)
  have w: "getAllWallets sampleEnv = sampleWallets" "bigNumberErrors sampleEnv = True"
    by (simp_all add: sampleEnv_def)
  have init: "initSwundle sampleEnv sampleSwundle
       = ([InitStarted ''s1'',
           InitFailed ''s1''
             (StringValue ''Insufficient ETH balance in wallet Main for transaction fees.'')],
          Resolved None)"
    using initSwundle_balance_failure [OF pa, unfolded same w, OF chk]
    by (simp add: messageOrError_def sampleSwundle_def)
  from single sample_balance sample_sendTotal chk init show ?thesis by simp
qed

text \<open>
  The claim without the condition fails: a 12 ETH swap on a wallet holding 10 ETH,
  followed by an error-free swap whose transaction is the empty object (no amount), makes
  the check throw the library's error when \<open>ERRORS\<close> is on and pass when it is off; with
  the second swap's transaction missing altogether the check throws a TypeError. The
  wallet and the asset are named in neither case.
\<close>

theorem checkSufficientBalances_missing_amount_counterexample:
  "sendTotal (swaps sampleDraftlessSwundle) ''w1'' ''ETH'' = Num 12
   \<and> knownBalance sampleWallets ''w1'' ''ETH'' = Num 10
   \<and> exceedsBalance (Num 12) (Num 10)
   \<and> sendPairs (swaps sampleDraftlessSwundle) = [(''w1'', ''ETH''), (''w1'', ''ETH'')]
   \<and> checkSufficientBalances True sampleWallets sampleDraftlessSwundle = Inl bigNumberError
   \<and> checkSufficientBalances False sampleWallets sampleDraftlessSwundle
       = Inr sampleDraftlessSwundle
   \<and> checkSufficientBalances True sampleWallets sampleTxlessSwundle
       = Inl destructureTypeError
   \<and> sendTotal (swaps sampleTxlessSwundle) ''w1'' ''ETH'' = Num 12"
  by code_simp

section \<open>Properties of the orchestrator\<close>

text \<open>
  What holds of the failure paths in general: \<open>initSwundle\<close> never rejects, and an error
  of any of its steps (market information, deposit check, balance check, order creation,
  transaction creation) ends in \<open>INIT_FAILED\<close> with \<open>e.message || e\<close>; an error of signing or
  sending a swap ends in \<open>SIGN_FAILED\<close> or \<open>SEND_FAILED\<close> with \<open>e.message\<close> and is thrown on.
\<close>

lemma initSwundle_never_rejects: "\<exists>acts v. initSwundle env swndl = (acts, Resolved v)"
  by (cases "initSteps env swndl") (simp_all add: initSwundle_def)

lemma initSwundle_market_failure:
  assumes "promiseAll (\<lambda>swp. case updateMarketInfo env swp of
                       Inl e \<Rightarrow> Inl e
                     | Inr swp1 \<Rightarrow> checkSufficientDeposit env swp1) (swaps swndl) = Inl e"
  shows "initSwundle env swndl
           = ([InitStarted (swundleId swndl), InitFailed (swundleId swndl) (messageOrError e)],
              Resolved None)"
  by (simp add: initSwundle_def initSteps_def assms)

lemma initSwundle_order_failure:
  assumes "promiseAll (\<lambda>swp. case updateMarketInfo env swp of
                       Inl e \<Rightarrow> Inl e
                     | Inr swp1 \<Rightarrow> checkSufficientDeposit env swp1) (swaps swndl) = Inr swps"
    and "checkSufficientBalances (bigNumberErrors env) (getAllWallets env)
           (swndl \<lparr> swaps := swps \<rparr>) = Inr s1"
    and "forEachSwap s1 (createOrder env) = Inl e"
  shows "initSwundle env swndl
           = ([InitStarted (swundleId swndl), InitFailed (swundleId swndl) (messageOrError e)],
              Resolved None)"
  by (simp add: initSwundle_def initSteps_def assms)

lemma initSwundle_tx_failure:
  assumes "promiseAll (\<lambda>swp. case updateMarketInfo env swp of
                       Inl e \<Rightarrow> Inl e
                     | Inr swp1 \<Rightarrow> checkSufficientDeposit env swp1) (swaps swndl) = Inr swps"
    and "checkSufficientBalances (bigNumberErrors env) (getAllWallets env)
           (swndl \<lparr> swaps := swps \<rparr>) = Inr s1"
    and "forEachSwap s1 (createOrder env) = Inr s2"
    and "snd (createSwundleTxs env s2 noOptions) = Inl e"
  shows "initSwundle env swndl
           = ([InitStarted (swundleId swndl), InitFailed (swundleId swndl) (messageOrError e)],
              Resolved None)"
  by (simp add: initSwundle_def initSteps_def assms)

lemma firstRejection_member:
  "(w, s, g) \<in> set started \<Longrightarrow> groupRejection g = Some e \<Longrightarrow>
     \<exists>e'. firstRejection started = Some e'"
  by (induction started) (auto split: option.splits)

lemma createSwundleTxs_rejects:
  assumes "(w, s, g) \<in> set (fst (createSwundleTxs env swndl options))"
    and "groupRejection g = Some e"
  shows "\<exists>e'. snd (createSwundleTxs env swndl options) = Inl e'"
proof (cases "createWalletGroups env options (groupBy sendWalletId (swaps swndl))")
  case (Pair started thrown)
  show ?thesis
  proof (cases thrown)
    case None
    with Pair assms(1) have "(w, s, g) \<in> set started" by (simp add: createSwundleTxs_def)
    from firstRejection_member [OF this assms(2)] obtain e' where
      "firstRejection started = Some e'" by blast
    with Pair None show ?thesis by (simp add: createSwundleTxs_def)
  next
    case (Some e')
    with Pair show ?thesis by (simp add: createSwundleTxs_def)
  qed
qed

lemma forEachSwap_first_failure:
  "swaps swndl = swp # rest \<Longrightarrow> handler swp = Inl e \<Longrightarrow> forEachSwap swndl handler = Inl e"
  by (simp add: forEachSwap_def)

lemma signSwundle_failure:
  "forEachSwap swndl (signSwap env) = Inl e \<Longrightarrow>
     signSwundle env swndl
       = ([SignStarted (swundleId swndl), SignFailed (swundleId swndl) (errorMessage e)],
          Rejected e)"
  by (simp add: signSwundle_def)

lemma sendSwundle_failure:
  "forEachSwap swndl (\<lambda>swp. sendSwap env swp sendOptions) = Inl e \<Longrightarrow>
     sendSwundle env swndl sendOptions
       = ([SendStarted (swundleId swndl), SendFailed (swundleId swndl) (errorMessage e)],
          Rejected e)"
  by (simp add: sendSwundle_def)

lemma failure_payloads:
  "messageOrError (ErrorObject (c # m)) = StringValue (c # m)"
  "messageOrError (StringValue s) = StringValue s"
  "errorMessage (ErrorObject m) = Some (StringValue m)"
  "errorMessage (StringValue s) = None"
  by (simp_all add: messageOrError_def errorMessage_def)

text \<open>
  C7. The claim holds for \<open>initSwundle\<close> and, when the error is an Error object, for
  \<open>signSwundle\<close> and \<open>sendSwundle\<close>. When signing or sending a swap rejects with a string,
  \<open>SIGN_FAILED\<close> and \<open>SEND_FAILED\<close> are dispatched with \<open>e.message\<close>, which is \<open>undefined\<close>: the
  action carries no message, although the same error is thrown on; \<open>initSwundle\<close>, with
  \<open>e.message || e\<close>, carries the string. Runs on the sample data: sending fails with the
  string \<open>broadcast failed\<close>; signing fails with the string \<open>failed to load fastxpub.wasm\<close>;
  the same string thrown while creating an order, or while creating a swap's
  transaction, reaches \<open>INIT_FAILED\<close>; signing failing with an Error object carries its
  message.
\<close>

theorem sign_send_failed_carry_no_message:
  "sendSwundle sampleEnv sampleSwundle ()
     = ([SendStarted ''s1'', SendFailed ''s1'' None], Rejected (StringValue ''broadcast failed''))
   \<and> signSwundle (sampleEnv \<lparr> signSwap := (\<lambda>swp. Inl wasmError) \<rparr>) sampleSwundle
     = ([SignStarted ''s1'', SignFailed ''s1'' None], Rejected wasmError)
   \<and> initSwundle (sampleEnv \<lparr> createOrder := (\<lambda>swp. Inl wasmError) \<rparr>) sampleEthSwundle
     = ([InitStarted ''s3'', InitFailed ''s3'' wasmError], Resolved None)
   \<and> initSwundle (sampleEnv \<lparr> createSwapTx := (\<lambda>swp options. Inl wasmError) \<rparr>)
        sampleEthSwundle
     = ([InitStarted ''s3'', InitFailed ''s3'' wasmError], Resolved None)
   \<and> signSwundle sampleEnv sampleSwundle
     = ([SignStarted ''s1'', SignFailed ''s1'' (Some (StringValue ''device disconnected''))],
        Rejected (ErrorObject ''device disconnected''))
   \<and> wasmError = StringValue ''failed to load fastxpub.wasm''"
  by code_simp

lemma groupBy_step_map_of:
  assumes "distinct (map fst G)"
    and "\<And>k. map_of G k = (if k \<in> key ` set ys then Some (filter (\<lambda>x. key x = k) ys) else None)"
  shows "distinct (map fst (foldl (\<lambda>groups x. mergeKey (key x) (\<lambda>members. members @ [x]) [] groups) G xs))
    \<and> (\<forall>k. map_of (foldl (\<lambda>groups x. mergeKey (key x) (\<lambda>members. members @ [x]) [] groups) G xs) k
          = (if k \<in> key ` set (ys @ xs) then Some (filter (\<lambda>x. key x = k) (ys @ xs)) else None))"
  using assms
proof (induction xs arbitrary: G ys)
  case Nil
  then show ?case by simp
next
  case (Cons x xs)
  let ?G = "mergeKey (key x) (\<lambda>members. members @ [x]) [] G"
  have d: "distinct (map fst ?G)" using Cons.prems(1) by (rule distinct_mergeKey)
  have m: "map_of ?G k = (if k \<in> key ` set (ys @ [x])
                          then Some (filter (\<lambda>x. key x = k) (ys @ [x])) else None)" for k
  proof (cases "k = key x")
    case True
    show ?thesis
    proof (cases "key x \<in> key ` set ys")
      case True
      with \<open>k = key x\<close> show ?thesis by (simp add: map_of_mergeKey Cons.prems(2))
    next
      case False
      then have "filter (\<lambda>y. key y = key x) ys = []"
        unfolding filter_empty_conv by (metis imageI)
      with False \<open>k = key x\<close> show ?thesis by (simp add: map_of_mergeKey Cons.prems(2))
    qed
  next
    case False
    then show ?thesis by (auto simp: map_of_mergeKey Cons.prems(2))
  qed
  from Cons.IH [OF d m] show ?case by simp
qed

lemma groupBy_map_of:
  "map_of (groupBy key xs) k
     = (if k \<in> key ` set xs then Some (filter (\<lambda>x. key x = k) xs) else None)"
  using groupBy_step_map_of [of "[]" key "[]" xs] by (simp add: groupBy_def)

lemma groupBy_distinct: "distinct (map fst (groupBy key xs))"
  using groupBy_step_map_of [of "[]" key "[]" xs] by (simp add: groupBy_def)

lemma groupBy_member:
  "(k, members) \<in> set (groupBy key xs) \<Longrightarrow> members = filter (\<lambda>x. key x = k) xs"
proof -
  assume "(k, members) \<in> set (groupBy key xs)"
  with groupBy_distinct [of key xs] have "map_of (groupBy key xs) k = Some members" by simp
  then show ?thesis by (simp add: groupBy_map_of split: if_splits)
qed

lemma createAssetGroups_member:
  "createAssetGroups env inst w options groups = (started, thrown) \<Longrightarrow>
   (w', s, g) \<in> set started \<Longrightarrow>
   w' = w \<and> (\<exists>swps. (s, swps) \<in> set groups \<and> createGroupTxs env inst w s swps options = Inr g)"
proof (induction groups arbitrary: started thrown)
  case Nil
  then show ?case by simp
next
  case (Cons p groups)
  obtain s0 swps0 where p: "p = (s0, swps0)" by (cases p)
  show ?case
  proof (cases "createGroupTxs env inst w s0 swps0 options")
    case (Inl e)
    with Cons.prems p show ?thesis by simp
  next
    case (Inr g0)
    obtain started1 thrown1 where
      r: "createAssetGroups env inst w options groups = (started1, thrown1)"
      by (cases "createAssetGroups env inst w options groups")
    with Cons.prems(1) p Inr have st: "started = (w, s0, g0) # started1" by simp
    from Cons.prems(2) [unfolded st]
    have "(w', s, g) = (w, s0, g0) \<or> (w', s, g) \<in> set started1" by simp
    then show ?thesis
    proof
      assume "(w', s, g) = (w, s0, g0)"
      with Inr p show ?thesis by auto
    next
      assume "(w', s, g) \<in> set started1"
      from Cons.IH [OF r this] show ?thesis by auto
    qed
  qed
qed

lemma createWalletGroups_member:
  "createWalletGroups env options groups = (started, thrown) \<Longrightarrow>
   (w, s, g) \<in> set started \<Longrightarrow>
   \<exists>walletSwaps inst swps. (w, walletSwaps) \<in> set groups \<and> walletGetOrThrow env w = Inr inst \<and>
      (s, swps) \<in> set (groupBy sendSymbol walletSwaps) \<and>
      createGroupTxs env inst w s swps options = Inr g"
proof (induction groups arbitrary: started thrown)
  case Nil
  then show ?case by simp
next
  case (Cons p groups)
  obtain w0 ws0 where p: "p = (w0, ws0)" by (cases p)
  show ?case
  proof (cases "walletGetOrThrow env w0")
    case (Inl e)
    with Cons.prems p show ?thesis by simp
  next
    case (Inr inst)
    obtain started1 thrown1 where
      a: "createAssetGroups env inst w0 options (groupBy sendSymbol ws0) = (started1, thrown1)"
      by (cases "createAssetGroups env inst w0 options (groupBy sendSymbol ws0)")
    obtain started2 thrown2 where
      r: "createWalletGroups env options groups = (started2, thrown2)"
      by (cases "createWalletGroups env options groups")
    from Cons.prems(1) p Inr a r have "set started \<subseteq> set started1 \<union> set started2"
      by (cases thrown1) auto
    with Cons.prems(2) have "(w, s, g) \<in> set started1 \<or> (w, s, g) \<in> set started2" by auto
    then show ?thesis
    proof
      assume "(w, s, g) \<in> set started1"
      from createAssetGroups_member [OF a this] Inr p show ?thesis by auto
    next
      assume "(w, s, g) \<in> set started2"
      from Cons.IH [OF r this] show ?thesis by auto
    qed
  qed
qed

lemma createSwundleTxs_member:
  assumes "createSwundleTxs env swndl options = (started, r)" and "(w, s, g) \<in> set started"
  shows "\<exists>inst. walletGetOrThrow env w = Inr inst \<and>
           createGroupTxs env inst w s
             (groupOf swndl w s) options
           = Inr g"
proof -
  obtain started1 thrown where
    c: "createWalletGroups env options (groupBy sendWalletId (swaps swndl)) = (started1, thrown)"
    by (cases "createWalletGroups env options (groupBy sendWalletId (swaps swndl))")
  with assms(1) have "started = started1"
    by (cases thrown) (simp_all add: createSwundleTxs_def)
  with assms(2) createWalletGroups_member [OF c] obtain walletSwaps inst swps where
    m: "(w, walletSwaps) \<in> set (groupBy sendWalletId (swaps swndl))"
       "walletGetOrThrow env w = Inr inst"
       "(s, swps) \<in> set (groupBy sendSymbol walletSwaps)"
       "createGroupTxs env inst w s swps options = Inr g"
    by blast
  from groupBy_member [OF m(1)] groupBy_member [OF m(3)]
  have "swps = groupOf swndl w s"
    by (simp add: groupOf_def conj_commute)
  with m show ?thesis by auto
qed

lemma depositOutputs_Inr:
  "depositOutputs swps = Inr outs \<Longrightarrow>
     list_all (\<lambda>swp. order swp \<noteq> None) swps \<and>
     outs = map (\<lambda>swp. (depositOf swp, sendUnits swp)) swps"
  by (induction swps arbitrary: outs) (auto simp: depositOf_def split: option.splits sum.splits)


lemma depositOutputs_Inl:
  "depositOutputs swps = Inl e \<Longrightarrow> \<not> list_all (\<lambda>swp. order swp \<noteq> None) swps"
  by (induction swps) (auto split: option.splits sum.splits)

lemma createAssetGroups_complete:
  "createAssetGroups env inst w options groups = (started, None) \<Longrightarrow>
   (s, swps) \<in> set groups \<Longrightarrow> \<exists>g. (w, s, g) \<in> set started"
proof (induction groups arbitrary: started)
  case Nil
  then show ?case by simp
next
  case (Cons p groups)
  obtain s0 swps0 where p: "p = (s0, swps0)" by (cases p)
  show ?case
  proof (cases "createGroupTxs env inst w s0 swps0 options")
    case (Inl e)
    with Cons.prems p show ?thesis by simp
  next
    case (Inr g0)
    obtain started1 thrown1 where
      r: "createAssetGroups env inst w options groups = (started1, thrown1)"
      by (cases "createAssetGroups env inst w options groups")
    with Cons.prems(1) p Inr have st: "started = (w, s0, g0) # started1" and t: "thrown1 = None"
      by simp_all
    from Cons.prems(2) p have "(s, swps) = (s0, swps0) \<or> (s, swps) \<in> set groups" by simp
    then show ?thesis
    proof
      assume "(s, swps) = (s0, swps0)"
      then show ?thesis unfolding st by auto
    next
      assume "(s, swps) \<in> set groups"
      from Cons.IH [OF r [unfolded t] this] show ?thesis unfolding st by auto
    qed
  qed
qed

lemma createWalletGroups_complete:
  "createWalletGroups env options groups = (started, None) \<Longrightarrow>
   (w, ws) \<in> set groups \<Longrightarrow> (s, swps) \<in> set (groupBy sendSymbol ws) \<Longrightarrow>
   \<exists>g. (w, s, g) \<in> set started"
proof (induction groups arbitrary: started)
  case Nil
  then show ?case by simp
next
  case (Cons p groups)
  obtain w0 ws0 where p: "p = (w0, ws0)" by (cases p)
  show ?case
  proof (cases "walletGetOrThrow env w0")
    case (Inl e)
    with Cons.prems p show ?thesis by simp
  next
    case (Inr inst)
    obtain started1 thrown1 where
      a: "createAssetGroups env inst w0 options (groupBy sendSymbol ws0) = (started1, thrown1)"
      by (cases "createAssetGroups env inst w0 options (groupBy sendSymbol ws0)")
    obtain started2 thrown2 where
      r: "createWalletGroups env options groups = (started2, thrown2)"
      by (cases "createWalletGroups env options groups")
    from Cons.prems(1) p Inr a r have t1: "thrown1 = None"
      by (cases thrown1) simp_all
    with Cons.prems(1) p Inr a r have st: "started = started1 @ started2" and t2: "thrown2 = None"
      by simp_all
    from Cons.prems(2) p have "(w, ws) = (w0, ws0) \<or> (w, ws) \<in> set groups" by simp
    then show ?thesis
    proof
      assume "(w, ws) = (w0, ws0)"
      with createAssetGroups_complete [OF a [unfolded t1]] Cons.prems(3)
      show ?thesis unfolding st by auto
    next
      assume "(w, ws) \<in> set groups"
      from Cons.IH [OF r [unfolded t2] this Cons.prems(3)] show ?thesis unfolding st by auto
    qed
  qed
qed

lemma groupBy_has_group:
  "x \<in> set xs \<Longrightarrow> (key x, filter (\<lambda>y. key y = key x) xs) \<in> set (groupBy key xs)"
proof -
  assume "x \<in> set xs"
  then have "map_of (groupBy key xs) (key x) = Some (filter (\<lambda>y. key y = key x) xs)"
    by (simp add: groupBy_map_of)
  then show ?thesis by (rule map_of_SomeD)
qed

lemma createSwundleTxs_complete:
  assumes "createSwundleTxs env swndl options = (started, Inr x)" and "swp \<in> set (swaps swndl)"
  shows "\<exists>g. (sendWalletId swp, sendSymbol swp, g) \<in> set started"
proof -
  obtain started1 thrown where
    c: "createWalletGroups env options (groupBy sendWalletId (swaps swndl)) = (started1, thrown)"
    by (cases "createWalletGroups env options (groupBy sendWalletId (swaps swndl))")
  with assms(1) have t: "thrown = None" and st: "started = started1"
    by (cases thrown; simp add: createSwundleTxs_def)+
  let ?ws = "filter (\<lambda>y. sendWalletId y = sendWalletId swp) (swaps swndl)"
  from assms(2) have g1: "(sendWalletId swp, ?ws) \<in> set (groupBy sendWalletId (swaps swndl))"
    by (rule groupBy_has_group)
  from assms(2) have "swp \<in> set ?ws" by simp
  then have g2: "(sendSymbol swp, filter (\<lambda>y. sendSymbol y = sendSymbol swp) ?ws)
                   \<in> set (groupBy sendSymbol ?ws)"
    by (rule groupBy_has_group)
  from createWalletGroups_complete [OF c [unfolded t] g1 g2] show ?thesis unfolding st .
qed

text \<open>
  C10. For every (wallet, asset) group that \<open>createSwundleTxs\<close> starts and whose wallet
  supports aggregate transactions for the asset: if a swap of the group has an error,
  nothing is built or attached for the group; otherwise every swap of the group has an
  order, \<open>createAggregateTx\<close> is called once with the swaps' deposit addresses and send
  amounts in group order, and when it succeeds the one transaction is attached to every
  swap of the group with the swap's index (nothing is attached when it fails). When
  \<open>createSwundleTxs\<close> resolves, every swap's group was started.
\<close>

theorem createSwundleTxs_aggregate_groups:
  assumes "createSwundleTxs env swndl options = (started, r)"
    and "(w, s, g) \<in> set started"
    and "walletGetOrThrow env w = Inr inst"
    and "isAggregateTransactionSupported inst s"
  shows "(if list_ex (\<lambda>swp. truthy (error swp)) (groupOf swndl w s)
          then g = NoTransaction
          else list_all (\<lambda>swp. order swp \<noteq> None) (groupOf swndl w s) \<and>
               (case createAggregateTx env w
                       (map (\<lambda>swp. (depositOf swp, sendUnits swp)) (groupOf swndl w s)) s options of
                  Inl e \<Rightarrow>
                    g = AggregateTx (map (\<lambda>swp. (depositOf swp, sendUnits swp)) (groupOf swndl w s))
                          (Inl e) []
                | Inr t \<Rightarrow>
                    g = AggregateTx (map (\<lambda>swp. (depositOf swp, sendUnits swp)) (groupOf swndl w s))
                          (Inr t)
                          (map (\<lambda>(i, swp). (swapId swp, t, i)) (enumerate 0 (groupOf swndl w s)))))
       \<and> (\<forall>x swp. r = Inr x \<longrightarrow> swp \<in> set (swaps swndl) \<longrightarrow>
             (\<exists>g'. (sendWalletId swp, sendSymbol swp, g') \<in> set started))"
proof -
  from createSwundleTxs_member [OF assms(1,2)] assms(3)
  have grp: "createGroupTxs env inst w s (groupOf swndl w s) options = Inr g" by auto
  have first: "(if list_ex (\<lambda>swp. truthy (error swp)) (groupOf swndl w s)
          then g = NoTransaction
          else list_all (\<lambda>swp. order swp \<noteq> None) (groupOf swndl w s) \<and>
               (case createAggregateTx env w
                       (map (\<lambda>swp. (depositOf swp, sendUnits swp)) (groupOf swndl w s)) s options of
                  Inl e \<Rightarrow>
                    g = AggregateTx (map (\<lambda>swp. (depositOf swp, sendUnits swp)) (groupOf swndl w s))
                          (Inl e) []
                | Inr t \<Rightarrow>
                    g = AggregateTx (map (\<lambda>swp. (depositOf swp, sendUnits swp)) (groupOf swndl w s))
                          (Inr t)
                          (map (\<lambda>(i, swp). (swapId swp, t, i)) (enumerate 0 (groupOf swndl w s)))))"
  proof (cases "list_ex (\<lambda>swp. truthy (error swp)) (groupOf swndl w s)")
    case True
    with grp assms(4) show ?thesis by (simp add: createGroupTxs_def)
  next
    case False
    with grp assms(4) obtain outs where outs: "depositOutputs (groupOf swndl w s) = Inr outs"
      by (cases "depositOutputs (groupOf swndl w s)") (simp_all add: createGroupTxs_def)
    note o = depositOutputs_Inr [OF outs]
    from grp assms(4) False outs o show ?thesis
      by (auto simp: createGroupTxs_def split: sum.splits)
  qed
  moreover have "\<forall>x swp. r = Inr x \<longrightarrow> swp \<in> set (swaps swndl) \<longrightarrow>
             (\<exists>g'. (sendWalletId swp, sendSymbol swp, g') \<in> set started)"
    using createSwundleTxs_complete assms(1) by blast
  ultimately show ?thesis by simp
qed

lemma sampleBtc_run:
  "createSwundleTxs sampleEnv sampleBtcSwundle noOptions
     = ([(''w1'', ''BTC'',
          AggregateTx [(''Da'', 1), (''Db'', 2)] (Inr (sampleTx ''w1'' 0))
            [(''a'', sampleTx ''w1'' 0, 0), (''b'', sampleTx ''w1'' 0, 1)])],
        Inr None)"
  by (simp add: createSwundleTxs_def groupBy_def sampleBtcSwundle_def sampleSwap_def
        sampleEnv_def createGroupTxs_def enumerate_eq_zip upt_rec)

theorem createSwundleTxs_aggregate_groups_witness:
  "createSwundleTxs sampleEnv sampleBtcSwundle noOptions
     = ([(''w1'', ''BTC'',
          AggregateTx [(''Da'', 1), (''Db'', 2)] (Inr (sampleTx ''w1'' 0))
            [(''a'', sampleTx ''w1'' 0, 0), (''b'', sampleTx ''w1'' 0, 1)])],
        Inr None)
   \<and> groupOf sampleBtcSwundle ''w1'' ''BTC'' = swaps sampleBtcSwundle
   \<and> \<not> list_ex (\<lambda>swp. truthy (error swp)) (swaps sampleBtcSwundle)
   \<and> list_all (\<lambda>swp. order swp \<noteq> None) (swaps sampleBtcSwundle)
   \<and> map (\<lambda>swp. (depositOf swp, sendUnits swp)) (swaps sampleBtcSwundle)
       = [(''Da'', 1), (''Db'', 2)]"
proof -
  have mem: "(''w1'', ''BTC'',
          AggregateTx [(''Da'', 1), (''Db'', 2)] (Inr (sampleTx ''w1'' 0))
            [(''a'', sampleTx ''w1'' 0, 0), (''b'', sampleTx ''w1'' 0, 1)])
        \<in> set [(''w1'', ''BTC'',
          AggregateTx [(''Da'', 1), (''Db'', 2)] (Inr (sampleTx ''w1'' 0))
            [(''a'', sampleTx ''w1'' 0, 0), (''b'', sampleTx ''w1'' 0, 1)])]"
    by simp
  have inst: "walletGetOrThrow sampleEnv ''w1''
                = Inr \<lparr> isAggregateTransactionSupported = (\<lambda>s. s = ''BTC'') \<rparr>"
    by (simp add: sampleEnv_def)
  have agg: "isAggregateTransactionSupported
               \<lparr> isAggregateTransactionSupported = (\<lambda>s. s = ''BTC'') \<rparr> ''BTC''"
    by simp
  have grp: "groupOf sampleBtcSwundle ''w1'' ''BTC'' = swaps sampleBtcSwundle"
    by (simp add: groupOf_def sampleBtcSwundle_def sampleSwap_def)
  have outs: "map (\<lambda>swp. (depositOf swp, sendUnits swp)) (swaps sampleBtcSwundle)
       = [(''Da'', 1), (''Db'', 2)]"
    by (simp add: depositOf_def sampleBtcSwundle_def sampleSwap_def)
  have noerr: "\<not> list_ex (\<lambda>swp. truthy (error swp)) (swaps sampleBtcSwundle)"
    by (simp add: sampleBtcSwundle_def sampleSwap_def)
  from createSwundleTxs_aggregate_groups [OF sampleBtc_run mem inst agg] sampleBtc_run grp outs noerr
  show ?thesis by simp
qed

section \<open>Properties of nonce chaining\<close>

lemma createTransaction_chains_nonce:
  assumes "nonceOption options = None" and "previousTx options = Some prev"
    and "ethTxData prev = Some d" and "toLowerCase (txFrom d) = toLowerCase fromAddress"
    and "createTransaction net fromAddress toAddress amt ast options = Inr t"
  shows "\<exists>d'. ethTxData t = Some d' \<and> nonce d' = nonce d + 1"
proof -
  from assms(5) obtain skeleton where
    sk: "txSkeletonFor net fromAddress toAddress amt ast = Inr skeleton"
    by (cases "txSkeletonFor net fromAddress toAddress amt ast")
       (simp_all add: createTransaction_def)
  then have f: "txFrom skeleton = fromAddress"
    by (auto simp: txSkeletonFor_def split: if_splits)
  have cn: "customNonceOf options (txFrom skeleton) = Inr (Some (nonce d + 1))"
    using assms(1-4) by (simp add: customNonceOf_def f)
  from assms(5) show ?thesis
    by (auto simp: createTransaction_def sk cn numberOr_def Let_def)
qed

text \<open>
  C4. With no explicit nonce and a previous transaction from the same address, the built
  nonce is the previous nonce plus one (\<open>createTransaction_chains_nonce\<close>), and two swaps
  sending the same asset from one address get the consecutive nonces 7 and 8. But
  \<open>createSwundleTxs\<close> keeps \<open>previousTx\<close> per (wallet, asset) group: two swaps funded from the
  same address with different send assets (ETH and an ERC20 token) each start from the
  network's transaction count, and both transactions are built with nonce 7.
\<close>

theorem mixed_asset_nonces_collide:
  "builtNonces (fst (createSwundleTxs sampleEthEnv sampleEthSwundle noOptions)) = [7, 8]
   \<and> builtNonces (fst (createSwundleTxs sampleEthEnv sampleMixedSwundle noOptions)) = [7, 7]"
proof -
  have same: "builtNonces (fst (createSwundleTxs sampleEthEnv sampleEthSwundle noOptions)) = [7, 8]"
    by (simp add: createSwundleTxs_def groupBy_def sampleEthSwundle_def sampleSwap_def
        sampleEthEnv_def sampleEnv_def createGroupTxs_def createSwapTxEthereum_def
        createTransaction_def txSkeletonFor_def customNonceOf_def sampleAssetOf_def
        sampleNet_def sampleTx_def noOptions_def numberOr_def depositOf_def Let_def
        toLowerCase_def lowerChar_def getDefaultFeeRate_def)
  have mixed: "builtNonces (fst (createSwundleTxs sampleEthEnv sampleMixedSwundle noOptions)) = [7, 7]"
    by (simp add: createSwundleTxs_def groupBy_def sampleMixedSwundle_def sampleSwap_def
        sampleEthEnv_def sampleEnv_def createGroupTxs_def createSwapTxEthereum_def
        createTransaction_def txSkeletonFor_def customNonceOf_def sampleAssetOf_def
        sampleNet_def sampleTx_def noOptions_def numberOr_def depositOf_def Let_def
        toLowerCase_def lowerChar_def getDefaultFeeRate_def)
  from same mixed show ?thesis by simp
qed

section \<open>Properties of the restoration\<close>

lemma restoreTxs_actions:
  "restoreTxs uuid n swps = (acts, swps', n') \<Longrightarrow>
     restoredSwaps acts = [] \<and> addedCreatedDates acts = [] \<and>
     map orderCreated swps' = map orderCreated swps"
proof (induction swps arbitrary: n acts swps' n')
  case Nil
  then show ?case by simp
next
  case (Cons swp swps)
  show ?case
  proof (cases "rsTx swp")
    case None
    obtain a s m where r: "restoreTxs uuid n swps = (a, s, m)"
      by (cases "restoreTxs uuid n swps")
    with Cons.prems None have "acts = a" "swps' = swp # s" by simp_all
    with Cons.IH [OF r] show ?thesis by simp
  next
    case (Some t)
    show ?thesis
    proof (cases "falsyId (storedTxId t)")
      case True
      obtain a s m where r: "restoreTxs uuid (n + 1) swps = (a, s, m)"
        by (cases "restoreTxs uuid (n + 1) swps")
      with Cons.prems Some True
      have "acts = TxRestored (t \<lparr> storedTxId := Some (uuid n) \<rparr>) # a"
        "swps' = swp \<lparr> rsTx := Some (t \<lparr> storedTxId := Some (uuid n) \<rparr>),
                        rsTxId := Some (uuid n) \<rparr> # s"
        by simp_all
      with Cons.IH [OF r] show ?thesis by (simp add: orderCreated_def)
    next
      case False
      obtain a s m where r: "restoreTxs uuid n swps = (a, s, m)"
        by (cases "restoreTxs uuid n swps")
      with Cons.prems Some False have "acts = TxRestored t # a" "swps' = swp # s" by simp_all
      with Cons.IH [OF r] show ?thesis by simp
    qed
  qed
qed

lemma restoreSwaps_actions:
  assumes "restoreSwaps uuid state = (acts, Some swapList, hasSwundle, n)"
  shows "restoredSwaps acts = swapList \<and> addedCreatedDates acts = []"
proof (cases "validateSwundleV2 state")
  case True
  then obtain v where v: "state = StoredObject v"
    by (cases state) (simp_all add: validateSwundleV2_def)
  let ?l = "case stSwap v of SwapArray l \<Rightarrow> l | SwapObject m \<Rightarrow> map snd m | NoSwapCollection \<Rightarrow> []"
  obtain a s m where r: "restoreTxs uuid 0 ?l = (a, s, m)"
    by (cases "restoreTxs uuid 0 ?l")
  from assms True v r have "swapList = s"
    and "acts = (case stTx v of None \<Rightarrow> [] | Some txs \<Rightarrow> [TxsRestored txs]) @ a
                  @ [SwapsRestored s]
                  @ (case stSwundle v of None \<Rightarrow> [] | Some sw \<Rightarrow> [SwundlesRestored sw])"
    by (auto simp: restoreSwaps_def Let_def)
  moreover have "restoredSwaps (xs @ ys) = restoredSwaps xs @ restoredSwaps ys" for xs ys
    by (induction xs rule: restoredSwaps.induct) simp_all
  moreover have "addedCreatedDates (xs @ ys) = addedCreatedDates xs @ addedCreatedDates ys" for xs ys
    by (induction xs rule: addedCreatedDates.induct) simp_all
  ultimately show ?thesis
    using restoreTxs_actions [OF r] by (simp split: option.splits)
next
  case False
  with assms show ?thesis
    by (auto simp: restoreSwaps_def split: if_splits storedState.splits)
qed

lemma restoredSwaps_append: "restoredSwaps (xs @ ys) = restoredSwaps xs @ restoredSwaps ys"
  by (induction xs rule: restoredSwaps.induct) simp_all

lemma addedCreatedDates_append:
  "addedCreatedDates (xs @ ys) = addedCreatedDates xs @ addedCreatedDates ys"
  by (induction xs rule: addedCreatedDates.induct) simp_all

lemma restoreSwaps_V2:
  assumes "state = StoredObject v" and "stSwap v \<noteq> NoSwapCollection" and "stSwundle v = None"
  shows "\<exists>acts swapList n. restoreSwaps uuid state = (acts, Some swapList, False, n)"
proof -
  let ?l = "case stSwap v of SwapArray l \<Rightarrow> l | SwapObject m \<Rightarrow> map snd m | NoSwapCollection \<Rightarrow> []"
  obtain a s m where r: "restoreTxs uuid 0 ?l = (a, s, m)"
    by (cases "restoreTxs uuid 0 ?l")
  from assms(2) have "validateSwundleV2 state"
    by (cases "stSwap v") (simp_all add: validateSwundleV2_def assms(1))
  with assms r show ?thesis by (simp add: restoreSwaps_def Let_def)
qed

lemma restoreSwaps_V1:
  assumes "validateSwundleV1 (StoredArray groups)"
  shows "restoreSwaps uuid (StoredArray groups)
           = ([SwapsRestored (expandV1 groups)], Some (expandV1 groups), False, 0)"
  using assms by (simp add: restoreSwaps_def validateSwundleV2_def)

text \<open>
  C8 (as the code has it). When \<open>restoreSwundles\<close> restores swaps without an explicit
  swundle (a V2 state with a swap collection and no \<open>swundle\<close> property, or a valid V1
  state), it adds one synthetic swundle whose creation date is the order-creation date
  of the first restored swap when that swap has an order with a truthy \<open>created\<close>, and
  the current time otherwise (also when there is no restored swap).
\<close>

theorem restoreSwundles_createdDate_first_swap:
  assumes "(\<exists>v. state = StoredObject v \<and> stSwap v \<noteq> NoSwapCollection \<and> stSwundle v = None)
           \<or> (\<exists>groups. state = StoredArray groups \<and> validateSwundleV1 state)"
  shows "addedCreatedDates (restoreSwundles uuid now state)
           = [case restoredSwaps (restoreSwundles uuid now state) of
                [] \<Rightarrow> now
              | first # others \<Rightarrow> (case orderCreated first of None \<Rightarrow> now | Some d \<Rightarrow> d)]"
proof -
  from assms restoreSwaps_V2 [of state _ uuid] restoreSwaps_V1 [of _ uuid]
  obtain acts swapList n where r: "restoreSwaps uuid state = (acts, Some swapList, False, n)"
    by blast
  note a = restoreSwaps_actions [OF r]
  have run: "restoreSwundles uuid now state
       = acts @ [SwundleAdded (uuid n) (syntheticCreatedDate now swapList) (map rsId swapList),
                 RestoreLatestSwundlePolling]"
    by (simp add: restoreSwundles_def r)
  show ?thesis
    unfolding run by (simp add: restoredSwaps_append addedCreatedDates_append a
                        syntheticCreatedDate_def)
qed

lemma sampleV2_run:
  "restoreSwundles sampleUuid 999 sampleStateV2
     = [SwapsRestored [sampleRestoredSwap ''a'' 200, sampleRestoredSwap ''b'' 100],
        SwundleAdded ''id'' 200 [Some ''a'', Some ''b''],
        RestoreLatestSwundlePolling]"
  by (simp add: restoreSwundles_def restoreSwaps_def validateSwundleV2_def sampleStateV2_def
        sampleRestoredSwap_def syntheticCreatedDate_def orderCreated_def truthyDate_def
        sampleUuid_def)

text \<open>
  C8 as claimed fails: with orders created at 200 and at 100, in this order, the synthetic
  swundle is dated 200, while the earliest order-creation date among the swaps is 100.
\<close>

theorem restoreSwundles_createdDate_counterexample:
  "restoredSwaps (restoreSwundles sampleUuid 999 sampleStateV2)
     = [sampleRestoredSwap ''a'' 200, sampleRestoredSwap ''b'' 100]
   \<and> addedCreatedDates (restoreSwundles sampleUuid 999 sampleStateV2) = [200]
   \<and> earliestCreatedDate 999 [sampleRestoredSwap ''a'' 200, sampleRestoredSwap ''b'' 100] = 100
   \<and> addedCreatedDates (restoreSwundles sampleUuid 999 sampleStateV2)
       \<noteq> [earliestCreatedDate 999 (restoredSwaps (restoreSwundles sampleUuid 999 sampleStateV2))]"
proof -
  have e: "earliestCreatedDate 999 [sampleRestoredSwap ''a'' 200, sampleRestoredSwap ''b'' 100] = 100"
    by (simp add: earliestCreatedDate_def List.map_filter_def orderCreated_def truthyDate_def
          sampleRestoredSwap_def)
  show ?thesis unfolding sampleV2_run by (simp add: e)
qed

theorem restoreSwundles_createdDate_witness:
  "addedCreatedDates (restoreSwundles sampleUuid 999 sampleStateV2) = [200]
   \<and> restoredSwaps (restoreSwundles sampleUuid 999 sampleStateV2)
       = [sampleRestoredSwap ''a'' 200, sampleRestoredSwap ''b'' 100]
   \<and> orderCreated (sampleRestoredSwap ''a'' 200) = Some 200"
proof -
  have h: "(\<exists>v. sampleStateV2 = StoredObject v \<and> stSwap v \<noteq> NoSwapCollection \<and> stSwundle v = None)
           \<or> (\<exists>groups. sampleStateV2 = StoredArray groups \<and> validateSwundleV1 sampleStateV2)"
    by (simp add: sampleStateV2_def)
  have s: "restoredSwaps (restoreSwundles sampleUuid 999 sampleStateV2)
       = [sampleRestoredSwap ''a'' 200, sampleRestoredSwap ''b'' 100]"
    unfolding sampleV2_run by simp
  have o: "orderCreated (sampleRestoredSwap ''a'' 200) = Some 200"
    by (simp add: orderCreated_def truthyDate_def sampleRestoredSwap_def)
  from restoreSwundles_createdDate_first_swap [OF h, of sampleUuid 999] s o
  show ?thesis by simp
qed

lemma validReceive_iff:
  "validReceive r = (reSymbol r \<noteq> [] \<and> 0 < reUnit r \<and> reOrder r \<noteq> None)"
  by (auto simp: validReceive_def Let_def)

lemma validSends_iff:
  "validSends seen groups =
     (distinct (map sgSymbol groups) \<and> set (map sgSymbol groups) \<inter> set seen = {} \<and>
      list_all (\<lambda>send. sgSymbol send \<noteq> [] \<and> list_all validReceive (sgList send)) groups)"
proof (induction groups arbitrary: seen)
  case Nil
  show ?case by simp
next
  case (Cons send groups)
  show ?case
    unfolding validSends.simps Cons.IH by auto
qed

lemma expandV1_from:
  "foldl (\<lambda>swapList send. swapList @ map (swapOfEntry send) (sgList send)) acc groups
     = acc @ concat (map (\<lambda>send. map (swapOfEntry send) (sgList send)) groups)"
  by (induction groups arbitrary: acc) simp_all

lemma expandV1_concat:
  "expandV1 groups = concat (map (\<lambda>send. map (swapOfEntry send) (sgList send)) groups)"
  by (simp add: expandV1_def expandV1_from)

text \<open>
  C9 (as the code has it). \<open>validateSwundleV1\<close> accepts a V1 payload exactly when the send
  symbols are non-empty and pairwise distinct and every receive entry has a non-empty
  symbol, a positive unit and an order; repeated receive symbols within a send-group
  play no part. Restoring an accepted payload yields one swap for every receive entry
  of every send-group, in order, repeated receive symbols included.
\<close>

theorem restore_v1_keeps_every_entry:
  "validateSwundleV1 (StoredArray groups)
     = (distinct (map sgSymbol groups) \<and>
        list_all (\<lambda>send. sgSymbol send \<noteq> [] \<and>
                    list_all (\<lambda>r. reSymbol r \<noteq> [] \<and> 0 < reUnit r \<and> reOrder r \<noteq> None)
                      (sgList send)) groups)
   \<and> (validateSwundleV1 (StoredArray groups) \<longrightarrow>
        restoredSwaps (restoreSwundles uuid now (StoredArray groups))
          = concat (map (\<lambda>send. map (swapOfEntry send) (sgList send)) groups))"
proof -
  have v: "validateSwundleV1 (StoredArray groups)
     = (distinct (map sgSymbol groups) \<and>
        list_all (\<lambda>send. sgSymbol send \<noteq> [] \<and>
                    list_all (\<lambda>r. reSymbol r \<noteq> [] \<and> 0 < reUnit r \<and> reOrder r \<noteq> None)
                      (sgList send)) groups)"
    by (simp add: validateSwundleV1_def validSends_iff validReceive_iff [abs_def])
  have "restoredSwaps (restoreSwundles uuid now (StoredArray groups))
          = concat (map (\<lambda>send. map (swapOfEntry send) (sgList send)) groups)"
    if "validateSwundleV1 (StoredArray groups)"
    by (simp add: restoreSwundles_def restoreSwaps_V1 [OF that] expandV1_concat)
  with v show ?thesis by blast
qed

text \<open>
  C9 as claimed fails: a send-group listing the receive symbol BTC twice is accepted, and
  both entries are restored as swaps; nothing is dropped.
\<close>

theorem restore_v1_duplicates_counterexample:
  "validateSwundleV1 sampleStateV1
   \<and> map rsReceiveSymbol (restoredSwaps (restoreSwundles sampleUuid 999 sampleStateV1))
       = [''BTC'', ''BTC'']
   \<and> map rsSendUnits (restoredSwaps (restoreSwundles sampleUuid 999 sampleStateV1)) = [1, 2]
   \<and> \<not> distinct (map rsReceiveSymbol
                      (restoredSwaps (restoreSwundles sampleUuid 999 sampleStateV1)))"
  by (simp add: restoreSwundles_def restoreSwaps_def validateSwundleV2_def
        validateSwundleV1_def validReceive_def sampleStateV1_def sampleEntry_def
        expandV1_def swapOfEntry_def)

theorem restore_v1_keeps_every_entry_witness:
  "validateSwundleV1 sampleStateV1
   \<and> restoredSwaps (restoreSwundles sampleUuid 999 sampleStateV1)
       = [swapOfEntry \<lparr> sgWalletId = ''w1'', sgSymbol = ''ETH'',
                        sgList = [sampleEntry ''BTC'' 1, sampleEntry ''BTC'' 2] \<rparr>
            (sampleEntry ''BTC'' 1),
          swapOfEntry \<lparr> sgWalletId = ''w1'', sgSymbol = ''ETH'',
                        sgList = [sampleEntry ''BTC'' 1, sampleEntry ''BTC'' 2] \<rparr>
            (sampleEntry ''BTC'' 2)]"
proof -
  have v: "validateSwundleV1 sampleStateV1"
    by (simp add: validateSwundleV1_def validReceive_def sampleStateV1_def sampleEntry_def)
  from restore_v1_keeps_every_entry
         [of "[\<lparr> sgWalletId = ''w1'', sgSymbol = ''ETH'',
                  sgList = [sampleEntry ''BTC'' 1, sampleEntry ''BTC'' 2] \<rparr>]" sampleUuid 999]
       v
  show ?thesis by (simp add: sampleStateV1_def)
qed

end
